theory Spec2Isabelle
  imports Complex_Main "HOL-Library.Finite_Map"
begin

section \<open>JavaScript values\<close>

text \<open>
  The values that \<^verbatim>\<open>JSON.parse\<close> produces and that the pipeline of
  \<^verbatim>\<open>services/geminiService.ts\<close> rewrites. An object is its table of own
  properties (the order of the properties is not observable in anything proved here).
  An array carries, besides its elements, the named properties that an assignment such as
  \<^verbatim>\<open>arr.strengths = []\<close> adds to it; \<^verbatim>\<open>JSON.parse\<close> returns arrays
  whose second component is empty. A property read that yields \<^verbatim>\<open>undefined\<close> is
  \<open>None\<close>. Numbers are never inspected beyond their truthiness and are idealised as reals.
\<close>

datatype jv =
    JNull
  | JBool bool
  | JNum real
  | JStr string
  | JArr "jv list" "(string, jv) fmap"
  | JObj "(string, jv) fmap"

type_synonym obj = "(string, jv) fmap"

text \<open>\<^verbatim>\<open>Array.isArray(x)\<close>, \<^verbatim>\<open>!!x\<close> and \<^verbatim>\<open>typeof x\<close>.\<close>

fun isArray :: "jv option \<Rightarrow> bool" where
  "isArray (Some (JArr xs p)) = True"
| "isArray _ = False"

fun truthy :: "jv option \<Rightarrow> bool" where
  "truthy None = False"
| "truthy (Some JNull) = False"
| "truthy (Some (JBool b)) = b"
| "truthy (Some (JNum n)) = (n \<noteq> 0)"
| "truthy (Some (JStr s)) = (s \<noteq> [])"
| "truthy (Some (JArr xs p)) = True"
| "truthy (Some (JObj m)) = True"

fun typeOf :: "jv option \<Rightarrow> string" where
  "typeOf None = ''undefined''"
| "typeOf (Some JNull) = ''object''"
| "typeOf (Some (JBool b)) = ''boolean''"
| "typeOf (Some (JNum n)) = ''number''"
| "typeOf (Some (JStr s)) = ''string''"
| "typeOf (Some (JArr xs p)) = ''object''"
| "typeOf (Some (JObj m)) = ''object''"

text \<open>
  Reading and writing a named property \<^verbatim>\<open>x.k\<close>. The names used by the code
  (\<^verbatim>\<open>missingComponents\<close>, \<^verbatim>\<open>weaknesses\<close>, \<^verbatim>\<open>strengths\<close>) are neither
  array indices nor properties of a prototype, so only own properties matter.
\<close>

fun getProp :: "jv \<Rightarrow> string \<Rightarrow> jv option" where
  "getProp (JObj m) k = fmlookup m k"
| "getProp (JArr xs p) k = fmlookup p k"
| "getProp _ k = None"

fun setProp :: "jv \<Rightarrow> string \<Rightarrow> jv \<Rightarrow> jv" where
  "setProp (JObj m) k v = JObj (fmupd k v m)"
| "setProp (JArr xs p) k v = JArr xs (fmupd k v p)"
| "setProp x k v = x"

text \<open>
  The own enumerable properties that an object spread \<^verbatim>\<open>{...x}\<close> copies: the
  properties of an object, the index keys (and added named properties) of an array, the index
  keys of a string, nothing for \<^verbatim>\<open>null\<close>, a boolean or a number.
\<close>

fun digit :: "nat \<Rightarrow> char" where
  "digit n = (''0123456789'' ! (n mod 10))"

function showNat :: "nat \<Rightarrow> string" where
  "showNat n = (if n < 10 then [digit n] else showNat (n div 10) @ [digit n])"
  by pat_completeness auto
termination
  by (relation "measure (\<lambda>n. n)") auto

definition indexed :: "jv list \<Rightarrow> obj" where
  "indexed xs = fmap_of_list (zip (map showNat [0 ..< length xs]) xs)"

fun ownProps :: "jv \<Rightarrow> obj" where
  "ownProps (JObj m) = m"
| "ownProps (JArr xs p) = indexed xs ++\<^sub>f p"
| "ownProps (JStr s) = indexed (map (\<lambda>c. JStr [c]) s)"
| "ownProps _ = fmempty"

text \<open>\<^verbatim>\<open>{ ...a, ...x }\<close>: the properties of \<open>a\<close>, overridden by those of \<open>x\<close>.\<close>

definition spread :: "obj \<Rightarrow> jv \<Rightarrow> obj" where
  "spread a x = a ++\<^sub>f ownProps x"

section \<open>Strings and regular expressions\<close>

text \<open>
  Texts are lists of 8-bit characters. \<^verbatim>\<open>\s\<close> and \<^verbatim>\<open>trim\<close> use the same
  white-space set (tab, line feed, vertical tab, form feed, carriage return, space,
  no-break space); \<^verbatim>\<open>.\<close> excludes the line terminators.
\<close>

definition isSpace :: "char \<Rightarrow> bool" where
  "isSpace c = (c \<in> set [CHR 0x09, CHR 0x0A, CHR 0x0B, CHR 0x0C, CHR 0x0D, CHR 0x20, CHR 0xA0])"

definition isLineTerminator :: "char \<Rightarrow> bool" where
  "isLineTerminator c = (c \<in> set [CHR 0x0A, CHR 0x0D])"

definition trim :: "string \<Rightarrow> string" where
  "trim s = rev (dropWhile isSpace (rev (dropWhile isSpace s)))"

text \<open>
  The regular expressions of the source are sequences of five kinds of atoms: a literal,
  a greedy starred character class \<^verbatim>\<open>C*\<close>, the capturing lazy group
  \<^verbatim>\<open>(C+?)\<close> (with \<^verbatim>\<open>(C*?)\<close> as the state it continues in), and the
  non-capturing alternative \<^verbatim>\<open>(?:lit|$)\<close>.
\<close>

datatype cls = AnyChar | Dot | Space | OneOf "char list"

fun in_cls :: "cls \<Rightarrow> char \<Rightarrow> bool" where
  "in_cls AnyChar c = True"
| "in_cls Dot c = (\<not> isLineTerminator c)"
| "in_cls Space c = isSpace c"
| "in_cls (OneOf cs) c = (c \<in> set cs)"

datatype atom = Lit string | Star cls | LazyPlusGroup cls | LazyStarGroup cls | LitOrEnd string

text \<open>
  Case folding of the \<^verbatim>\<open>i\<close> flag. The literals of the source contain only ASCII
  letters and the underscore, which no character beyond ASCII folds to.
\<close>

definition canon :: "char \<Rightarrow> char" where
  "canon c =
     (case map_of (zip ''abcdefghijklmnopqrstuvwxyz'' ''ABCDEFGHIJKLMNOPQRSTUVWXYZ'') c of
        Some u \<Rightarrow> u
      | None \<Rightarrow> c)"

definition lit_prefix :: "bool \<Rightarrow> string \<Rightarrow> string \<Rightarrow> bool" where
  "lit_prefix ci l s =
     (if ci then map canon l = map canon (take (length l) s) else l = take (length l) s)"

text \<open>
  The backtracking matcher: \<open>rx_from ci rx s g\<close> matches \<open>rx\<close> at the start of \<open>s\<close>
  with \<open>g\<close> the text captured so far, and returns the capture and the input left after the
  match. A greedy star first tries to take one more character, a lazy one first tries to stop.
\<close>

fun rx_from :: "bool \<Rightarrow> atom list \<Rightarrow> string \<Rightarrow> string \<Rightarrow> (string \<times> string) option" where
  "rx_from ci [] s g = Some (g, s)"
| "rx_from ci (Lit l # as) s g =
     (if lit_prefix ci l s then rx_from ci as (drop (length l) s) g else None)"
| "rx_from ci (Star c # as) s g =
     (case s of
        [] \<Rightarrow> rx_from ci as [] g
      | x # xs \<Rightarrow>
          if in_cls c x
          then (case rx_from ci (Star c # as) xs g of
                  Some r \<Rightarrow> Some r
                | None \<Rightarrow> rx_from ci as s g)
          else rx_from ci as s g)"
| "rx_from ci (LazyPlusGroup c # as) s g =
     (case s of
        [] \<Rightarrow> None
      | x # xs \<Rightarrow> if in_cls c x then rx_from ci (LazyStarGroup c # as) xs [x] else None)"
| "rx_from ci (LazyStarGroup c # as) s g =
     (case rx_from ci as s g of
        Some r \<Rightarrow> Some r
      | None \<Rightarrow>
          (case s of
             [] \<Rightarrow> None
           | x # xs \<Rightarrow>
               if in_cls c x then rx_from ci (LazyStarGroup c # as) xs (g @ [x]) else None))"
| "rx_from ci (LitOrEnd l # as) s g =
     (case (if lit_prefix ci l s then rx_from ci as (drop (length l) s) g else None) of
        Some r \<Rightarrow> Some r
      | None \<Rightarrow> if s = [] then rx_from ci as s g else None)"

text \<open>
  \<^verbatim>\<open>s.match(rx)\<close> without the \<^verbatim>\<open>g\<close> flag: the leftmost match, as the pair of
  the matched text (\<^verbatim>\<open>m[0]\<close>) and the capture (\<^verbatim>\<open>m[1]\<close>), or \<open>None\<close> for
  \<^verbatim>\<open>null\<close>.
\<close>

fun rx_match :: "bool \<Rightarrow> atom list \<Rightarrow> string \<Rightarrow> (string \<times> string) option" where
  "rx_match ci rx s =
     (case rx_from ci rx s [] of
        Some (g, rest) \<Rightarrow> Some (take (length s - length rest) s, g)
      | None \<Rightarrow> (case s of [] \<Rightarrow> None | x # xs \<Rightarrow> rx_match ci rx xs))"

text \<open>
  \<^verbatim>\<open>s.replace(rx, '')\<close> with the \<^verbatim>\<open>g\<close> flag: every match, left to right, is
  deleted; after an empty match the scan moves one character on.
\<close>

fun removeAll_rx :: "atom list \<Rightarrow> string \<Rightarrow> string" where
  "removeAll_rx rx s =
     (case rx_from False rx s [] of
        Some (g, rest) \<Rightarrow>
          if length rest < length s then removeAll_rx rx rest
          else (case s of [] \<Rightarrow> [] | x # xs \<Rightarrow> x # removeAll_rx rx xs)
      | None \<Rightarrow> (case s of [] \<Rightarrow> [] | x # xs \<Rightarrow> x # removeAll_rx rx xs))"

text \<open>\<^verbatim>\<open>s.split(sep)\<close> for a string separator.\<close>

fun split_scan :: "string \<Rightarrow> string \<Rightarrow> string \<Rightarrow> string list" where
  "split_scan sep acc [] = [acc]"
| "split_scan sep acc (x # xs) =
     (if sep \<noteq> [] \<and> sep = take (length sep) (x # xs)
      then acc # split_scan sep [] (drop (length sep) (x # xs))
      else split_scan sep (acc @ [x]) xs)"

definition split :: "string \<Rightarrow> string \<Rightarrow> string list" where
  "split s sep = (if sep = [] then map (\<lambda>c. [c]) s else split_scan sep [] s)"

section \<open>parseJSON\<close>

text \<open>
  \<^verbatim>\<open>new Error(msg)\<close> and the \<^verbatim>\<open>SyntaxError\<close> of \<^verbatim>\<open>JSON.parse\<close>.
\<close>

datatype error = Error string | SyntaxError

text \<open>
  \<^verbatim>\<open>JSON.parse\<close> belongs to the runtime, not to the repository: it is the
  parameter \<open>P\<close> of everything below, \<open>None\<close> where it throws.
\<close>

definition JSON_parse :: "(string \<Rightarrow> jv option) \<Rightarrow> string \<Rightarrow> error + jv" where
  "JSON_parse P s = (case P s of None \<Rightarrow> Inl SyntaxError | Some v \<Rightarrow> Inr v)"

text \<open>
  \<^verbatim>\<open>/\{[\s\S]*\}/\<close>, \<^verbatim>\<open>/\[[\s\S]*\]/\<close>, \<^verbatim>\<open>/```json\s*/g\<close> and
  \<^verbatim>\<open>/```\s*/g\<close>.
\<close>

definition objectRx :: "atom list" where
  "objectRx = [Lit ''{'', Star AnyChar, Lit ''}'']"

definition arrayRx :: "atom list" where
  "arrayRx = [Lit ''['', Star AnyChar, Lit '']'']"

definition fenceJsonRx :: "atom list" where
  "fenceJsonRx = [Lit ''```json'', Star Space]"

definition fenceRx :: "atom list" where
  "fenceRx = [Lit ''```'', Star Space]"

text \<open>
  The body of the \<^verbatim>\<open>try\<close> block of \<^verbatim>\<open>parseJSON\<close>. The source also computes
  \<^verbatim>\<open>text.trim()\<close> into a constant that it never reads.
\<close>

definition parseJSON_try :: "(string \<Rightarrow> jv option) \<Rightarrow> string \<Rightarrow> error + jv" where
  "parseJSON_try P s =
     (let trimmed = trim s in
      case rx_match False objectRx s of
        Some objectMatch \<Rightarrow> JSON_parse P (fst objectMatch)
      | None \<Rightarrow>
          (case rx_match False arrayRx s of
             Some arrayMatch \<Rightarrow> JSON_parse P (fst arrayMatch)
           | None \<Rightarrow>
               (let clean = removeAll_rx fenceRx (removeAll_rx fenceJsonRx s)
                in JSON_parse P clean)))"

text \<open>The \<^verbatim>\<open>catch\<close> block returns the empty object.\<close>

definition parseJSON :: "(string \<Rightarrow> jv option) \<Rightarrow> string \<Rightarrow> jv" where
  "parseJSON P s = (case parseJSON_try P s of Inr v \<Rightarrow> v | Inl e \<Rightarrow> JObj fmempty)"

section \<open>Promises and withTimeout\<close>

text \<open>
  A promise either never settles or settles at some instant (in milliseconds after the
  call) with a rejection (\<open>Inl\<close>) or a value (\<open>Inr\<close>). \<^verbatim>\<open>Promise.race\<close> of two
  promises settles as the one that settles first, the first of the array when both settle at
  the same instant.
\<close>

datatype 'a promise = Pending | Settled nat "error + 'a"

fun race :: "'a promise \<Rightarrow> 'a promise \<Rightarrow> 'a promise" where
  "race Pending q = q"
| "race (Settled t r) Pending = Settled t r"
| "race (Settled t r) (Settled u q) = (if t \<le> u then Settled t r else Settled u q)"

text \<open>
  \<^verbatim>\<open>timeoutPromise\<close> rejects with \<^verbatim>\<open>new Error(errorMsg)\<close> after \<open>ms\<close>
  milliseconds; \<^verbatim>\<open>.finally(() => clearTimeout(timeoutId))\<close> passes the outcome of
  the race through.
\<close>

definition timeoutPromise :: "nat \<Rightarrow> string \<Rightarrow> 'a promise" where
  "timeoutPromise ms errorMsg = Settled ms (Inl (Error errorMsg))"

definition withTimeout :: "'a promise \<Rightarrow> nat \<Rightarrow> string \<Rightarrow> 'a promise" where
  "withTimeout p ms errorMsg = race p (timeoutPromise ms errorMsg)"

section \<open>The model provider's response\<close>

text \<open>
  Of a \<^verbatim>\<open>GenerateContentResponse\<close> the code reads \<^verbatim>\<open>response.text\<close> (possibly
  undefined) and \<^verbatim>\<open>response.candidates?.[0]?.groundingMetadata?.groundingChunks\<close>; of
  a grounding chunk \<open>c\<close> it reads \<^verbatim>\<open>c.web?.uri\<close>. The prompts that the stages
  build from their arguments only decide which promise the provider returns, so each stage
  below takes that promise (\<^verbatim>\<open>request\<close> in the source) as its input.
\<close>

record GroundingChunk =
  webUri :: "string option"

record GenerateContentResponse =
  responseText :: "string option"
  groundingChunks :: "GroundingChunk list option"

text \<open>
  \<^verbatim>\<open>getClient()\<close> constructs the provider's handle with
  \<^verbatim>\<open>new GoogleGenAI(...)\<close>: it returns the handle or throws. In
  \<^verbatim>\<open>evaluateSyllabusContent\<close> and \<^verbatim>\<open>translateAnalysisResult\<close> the
  request exists only once the handle does, and nothing is caught there anyway. The two
  search-grounded stages call it before their \<^verbatim>\<open>try\<close> block, so its outcome is
  an input of theirs (\<open>Inl\<close> when it throws).
\<close>

datatype GoogleGenAI = GoogleGenAI

text \<open>\<^verbatim>\<open>response.text || d\<close>.\<close>

definition orElse :: "string option \<Rightarrow> string \<Rightarrow> string" where
  "orElse t d = (case t of None \<Rightarrow> d | Some s \<Rightarrow> if s = [] then d else s)"

section \<open>evaluateSyllabusContent\<close>

definition emptyArray :: jv where
  "emptyArray = JArr [] fmempty"

definition strings :: "string list \<Rightarrow> jv" where
  "strings xs = JArr (map JStr xs) fmempty"

definition defaultGapAnalysis :: jv where
  "defaultGapAnalysis = JObj (fmap_of_list
     [(''missingComponents'', strings [''Analysis yielded no missing components data.'']),
      (''weaknesses'', strings [''Analysis yielded no weakness data.'']),
      (''strengths'', strings [''Analysis yielded no strength data.''])])"

definition defaultAnalysis :: obj where
  "defaultAnalysis = fmap_of_list
     [(''courseTitle'', JStr ''Untitled Course''),
      (''syllabusTopics'', strings [''General Topics'']),
      (''overallScore'', JNum 0),
      (''sectionScores'', emptyArray),
      (''gapAnalysis'', defaultGapAnalysis),
      (''recommendations'', emptyArray),
      (''revisedILOs'', strings [''No revisions generated.'']),
      (''suggestedActivities'', emptyArray)]"

text \<open>\<^verbatim>\<open>if (!Array.isArray(o.k)) o.k = d\<close>, on an object and on a value.\<close>

definition arrayOr :: "string \<Rightarrow> jv \<Rightarrow> obj \<Rightarrow> obj" where
  "arrayOr k d ob = (if \<not> isArray (fmlookup ob k) then fmupd k d ob else ob)"

definition arrayOrProp :: "string \<Rightarrow> jv \<Rightarrow> jv \<Rightarrow> jv" where
  "arrayOrProp k d x = (if \<not> isArray (getProp x k) then setProp x k d else x)"

text \<open>The block under \<^verbatim>\<open>// Data Validation & Sanitization\<close>.\<close>

definition sanitizeLists :: "obj \<Rightarrow> obj" where
  "sanitizeLists finalData =
     arrayOr ''suggestedActivities'' emptyArray
       (arrayOr ''revisedILOs'' emptyArray
         (arrayOr ''recommendations'' emptyArray
           (arrayOr ''syllabusTopics'' (strings [''Topics not extracted''])
             (arrayOr ''sectionScores'' emptyArray finalData))))"

text \<open>The block under \<^verbatim>\<open>// Gap Analysis Sanitization\<close>.\<close>

definition sanitizeGapAnalysis :: "obj \<Rightarrow> obj" where
  "sanitizeGapAnalysis finalData =
     (let gapAnalysis = fmlookup finalData ''gapAnalysis'' in
      if \<not> truthy gapAnalysis \<or> typeOf gapAnalysis \<noteq> ''object''
      then fmupd ''gapAnalysis'' defaultGapAnalysis finalData
      else (case gapAnalysis of
              None \<Rightarrow> finalData
            | Some g \<Rightarrow>
                fmupd ''gapAnalysis''
                  (arrayOrProp ''strengths'' emptyArray
                    (arrayOrProp ''weaknesses'' emptyArray
                      (arrayOrProp ''missingComponents'' emptyArray g)))
                  finalData))"

text \<open>
  What the function does with the response it awaited: parse, overlay on the defaults,
  sanitize.
\<close>

definition analysisOf :: "(string \<Rightarrow> jv option) \<Rightarrow> GenerateContentResponse \<Rightarrow> obj" where
  "analysisOf P response =
     (let parsedData = parseJSON P (orElse (responseText response) ''{}'');
          finalData = spread defaultAnalysis parsedData
      in sanitizeGapAnalysis (sanitizeLists finalData))"

text \<open>
  The \<^verbatim>\<open>await\<close> is not inside a \<^verbatim>\<open>try\<close>: a rejection of the wrapped call
  rejects the stage.
\<close>

definition evaluateSyllabusContent ::
    "(string \<Rightarrow> jv option) \<Rightarrow> GenerateContentResponse promise \<Rightarrow> obj promise" where
  "evaluateSyllabusContent P request =
     (case withTimeout request 60000 ''Analysis timed out (60s).'' of
        Pending \<Rightarrow> Pending
      | Settled t (Inl e) \<Rightarrow> Settled t (Inl e)
      | Settled t (Inr response) \<Rightarrow> Settled t (Inr (analysisOf P response)))"

section \<open>performBenchmarking\<close>

record BenchmarkResult =
  university :: string
  comparison :: string
  url :: "string option"

text \<open>
  \<^verbatim>\<open>/University[:*]*\s*(.+?)(?:\n|$)/i\<close>,
  \<^verbatim>\<open>/Comparison[:*]*\s*([\s\S]+?)(?:END_ITEM|$)/i\<close> and \<^verbatim>\<open>/\*/g\<close>.
\<close>

definition uniRx :: "atom list" where
  "uniRx = [Lit ''University'', Star (OneOf '':*''), Star Space, LazyPlusGroup Dot,
            LitOrEnd ''\<newline>'']"

definition compRx :: "atom list" where
  "compRx = [Lit ''Comparison'', Star (OneOf '':*''), Star Space, LazyPlusGroup AnyChar,
             LitOrEnd ''END_ITEM'']"

definition starRx :: "atom list" where
  "starRx = [Lit ''*'']"

text \<open>One iteration of \<^verbatim>\<open>for (const item of items)\<close>, with the push made explicit.\<close>

definition benchmarkStep :: "BenchmarkResult list \<Rightarrow> string \<Rightarrow> BenchmarkResult list" where
  "benchmarkStep results item =
     (let uniMatch = rx_match True uniRx item;
          compMatch = rx_match True compRx item
      in case uniMatch of
           None \<Rightarrow> results
         | Some um \<Rightarrow>
             (case compMatch of
                None \<Rightarrow> results
              | Some cm \<Rightarrow>
                  results @
                  [\<lparr>university = removeAll_rx starRx (trim (snd um)),
                    comparison = trim (snd cm),
                    url = None\<rparr>]))"

definition parseBenchmarks :: "string \<Rightarrow> BenchmarkResult list" where
  "parseBenchmarks s = foldl benchmarkStep [] (split s ''BENCHMARK_ITEM'')"

text \<open>
  \<^verbatim>\<open>chunks.find((c) => c.web?.uri)\<close> and the assignment
  \<^verbatim>\<open>results[0].url = webChunk.web.uri\<close>.
\<close>

definition hasUri :: "GroundingChunk \<Rightarrow> bool" where
  "hasUri c = (case webUri c of None \<Rightarrow> False | Some u \<Rightarrow> u \<noteq> [])"

definition attachUrl ::
    "GroundingChunk list option \<Rightarrow> BenchmarkResult list \<Rightarrow> BenchmarkResult list" where
  "attachUrl chunks results =
     (case chunks of
        None \<Rightarrow> results
      | Some cs \<Rightarrow>
          (case results of
             [] \<Rightarrow> results
           | r # rs \<Rightarrow>
               (case find hasUri cs of
                  None \<Rightarrow> results
                | Some webChunk \<Rightarrow> r\<lparr>url := webUri webChunk\<rparr> # rs)))"

definition noData :: BenchmarkResult where
  "noData = \<lparr>university = ''No Data'', comparison = ''Could not retrieve benchmarks.'',
             url = None\<rparr>"

definition searchUnavailable :: BenchmarkResult where
  "searchUnavailable =
     \<lparr>university = ''Search Unavailable'',
      comparison = ''Benchmarking skipped due to connection timeout or error.'',
      url = None\<rparr>"

definition benchmarksOf :: "GenerateContentResponse \<Rightarrow> BenchmarkResult list" where
  "benchmarksOf response =
     (let results = attachUrl (groundingChunks response)
                      (parseBenchmarks (orElse (responseText response) []))
      in if length results > 0 then results else [noData])"

text \<open>
  \<^verbatim>\<open>const client = getClient()\<close> comes first, outside the \<^verbatim>\<open>try\<close>: if
  it throws, the asynchronous function rejects at once. The \<^verbatim>\<open>await\<close> is inside
  the \<^verbatim>\<open>try\<close>: the \<^verbatim>\<open>catch\<close> block turns every rejection of the awaited
  call into the one-record list.
\<close>

definition performBenchmarking ::
    "error + GoogleGenAI \<Rightarrow> GenerateContentResponse promise \<Rightarrow> BenchmarkResult list promise"
    where
  "performBenchmarking getClient request =
     (case getClient of
        Inl thrown \<Rightarrow> Settled 0 (Inl thrown)
      | Inr client \<Rightarrow>
          (case withTimeout request 90000 ''Benchmarking search timed out.'' of
             Pending \<Rightarrow> Pending
           | Settled t (Inl e) \<Rightarrow> Settled t (Inr [searchUnavailable])
           | Settled t (Inr response) \<Rightarrow> Settled t (Inr (benchmarksOf response))))"

section \<open>findLocalTutors\<close>

record Tutor =
  name :: string
  affiliation :: string
  email :: string
  specialization :: string

text \<open>
  \<^verbatim>\<open>/Name[:*]*\s*(.+?)(?:\n|$)/i\<close>, \<^verbatim>\<open>/Affiliation[:*]*\s*(.+?)(?:\n|$)/i\<close>,
  \<^verbatim>\<open>/Email[:*]*\s*(.+?)(?:\n|$)/i\<close> and
  \<^verbatim>\<open>/Specialization[:*]*\s*([\s\S]+?)(?:END_ITEM|$)/i\<close>.
\<close>

definition nameRx :: "atom list" where
  "nameRx = [Lit ''Name'', Star (OneOf '':*''), Star Space, LazyPlusGroup Dot,
             LitOrEnd ''\<newline>'']"

definition affRx :: "atom list" where
  "affRx = [Lit ''Affiliation'', Star (OneOf '':*''), Star Space, LazyPlusGroup Dot,
            LitOrEnd ''\<newline>'']"

definition emailRx :: "atom list" where
  "emailRx = [Lit ''Email'', Star (OneOf '':*''), Star Space, LazyPlusGroup Dot,
              LitOrEnd ''\<newline>'']"

definition specRx :: "atom list" where
  "specRx = [Lit ''Specialization'', Star (OneOf '':*''), Star Space, LazyPlusGroup AnyChar,
             LitOrEnd ''END_ITEM'']"

definition tutorStep :: "Tutor list \<Rightarrow> string \<Rightarrow> Tutor list" where
  "tutorStep results item =
     (let nameMatch = rx_match True nameRx item;
          affMatch = rx_match True affRx item;
          emailMatch = rx_match True emailRx item;
          specMatch = rx_match True specRx item
      in case nameMatch of
           None \<Rightarrow> results
         | Some nm \<Rightarrow>
             results @
             [\<lparr>name = removeAll_rx starRx (trim (snd nm)),
               affiliation = (case affMatch of
                                Some am \<Rightarrow> removeAll_rx starRx (trim (snd am))
                              | None \<Rightarrow> ''Unknown''),
               email = (case emailMatch of
                          Some em \<Rightarrow> removeAll_rx starRx (trim (snd em))
                        | None \<Rightarrow> ''Not listed''),
               specialization = (case specMatch of
                                   Some sm \<Rightarrow> trim (snd sm)
                                 | None \<Rightarrow> ''Related Field'')\<rparr>])"

definition parseTutors :: "string \<Rightarrow> Tutor list" where
  "parseTutors s = foldl tutorStep [] (split s ''TUTOR_ITEM'')"

text \<open>
  As in \<^verbatim>\<open>performBenchmarking\<close>, \<^verbatim>\<open>getClient()\<close> is called before the
  \<^verbatim>\<open>try\<close> and the \<^verbatim>\<open>await\<close> inside it.
\<close>

definition findLocalTutors ::
    "error + GoogleGenAI \<Rightarrow> GenerateContentResponse promise \<Rightarrow> Tutor list promise" where
  "findLocalTutors getClient request =
     (case getClient of
        Inl thrown \<Rightarrow> Settled 0 (Inl thrown)
      | Inr client \<Rightarrow>
          (case withTimeout request 90000 ''Tutor search timed out.'' of
             Pending \<Rightarrow> Pending
           | Settled t (Inl e) \<Rightarrow> Settled t (Inr [])
           | Settled t (Inr response) \<Rightarrow>
               Settled t (Inr (parseTutors (orElse (responseText response) [])))))"

section \<open>translateAnalysisResult\<close>

text \<open>
  \<^verbatim>\<open>return { ...data, ...parsed }\<close>; as in \<^verbatim>\<open>evaluateSyllabusContent\<close> the
  \<^verbatim>\<open>await\<close> is not inside a \<^verbatim>\<open>try\<close>.
\<close>

definition translateAnalysisResult ::
    "(string \<Rightarrow> jv option) \<Rightarrow> obj \<Rightarrow> GenerateContentResponse promise \<Rightarrow> obj promise" where
  "translateAnalysisResult P data request =
     (case withTimeout request 60000 ''Translation timed out.'' of
        Pending \<Rightarrow> Pending
      | Settled t (Inl e) \<Rightarrow> Settled t (Inl e)
      | Settled t (Inr response) \<Rightarrow>
          (let parsed = parseJSON P (orElse (responseText response) ''{}'')
           in Settled t (Inr (spread data parsed))))"

section \<open>Reference definitions and example data\<close>

text \<open>
  The text from the first occurrence of \<open>l\<close> to the last occurrence of \<open>r\<close> after it,
  if there is one: what "extract the \<^verbatim>\<open>{...}\<close> object by pattern match" denotes, to be
  compared with the matcher on \<open>objectRx\<close> and \<open>arrayRx\<close>.
\<close>

definition enclosed :: "char \<Rightarrow> char \<Rightarrow> string \<Rightarrow> string option" where
  "enclosed l r s =
     (let u = dropWhile (\<lambda>c. c \<noteq> l) s
      in if u \<noteq> [] \<and> r \<in> set (tl u)
         then Some (l # rev (dropWhile (\<lambda>c. c \<noteq> r) (rev (tl u))))
         else None)"

text \<open>
  The names of the fields of the report that the sanitization pass treats as lists.
\<close>

definition plainListKeys :: "string list" where
  "plainListKeys = [''sectionScores'', ''recommendations'', ''revisedILOs'', ''suggestedActivities'']"

definition gapKeys :: "string list" where
  "gapKeys = [''missingComponents'', ''weaknesses'', ''strengths'']"

definition reportKeys :: "string list" where
  "reportKeys = [''courseTitle'', ''syllabusTopics'', ''overallScore'', ''sectionScores'',
                 ''gapAnalysis'', ''recommendations'', ''revisedILOs'', ''suggestedActivities'']"

text \<open>
  Example response texts, and \<^verbatim>\<open>JSON.parse\<close> on them: each row of
  \<open>sampleJSON\<close> is the value that \<^verbatim>\<open>JSON.parse\<close> returns for that text. On
  the other texts that the examples hand to it (\<^verbatim>\<open>{},{}\<close> and \<^verbatim>\<open>n/a\<close>)
  it throws.
\<close>

definition sampleGapText :: string where
  "sampleGapText = ''{\"gapAnalysis\":{\"missingComponents\":[],\"weaknesses\":\"none\"}}''"

definition sampleListText :: string where
  "sampleListText = ''{\"revisedILOs\":\"none\",\"syllabusTopics\":null}''"

definition sampleTranslation :: string where
  "sampleTranslation =
     ''{\"courseTitle\":\"Algorithmen\",\"overallScore\":70,\"recommendations\":[\"Mehr Labore\"]}''"

definition sampleJSON :: "string \<Rightarrow> jv option" where
  "sampleJSON = map_of
     [(''[{},{}]'', JArr [JObj fmempty, JObj fmempty] fmempty),
      (sampleGapText,
       JObj (fmap_of_list
         [(''gapAnalysis'', JObj (fmap_of_list
            [(''missingComponents'', JArr [] fmempty), (''weaknesses'', JStr ''none'')]))])),
      (sampleListText,
       JObj (fmap_of_list [(''revisedILOs'', JStr ''none''), (''syllabusTopics'', JNull)])),
      (sampleTranslation,
       JObj (fmap_of_list
         [(''courseTitle'', JStr ''Algorithmen''), (''overallScore'', JNum 70),
          (''recommendations'', JArr [JStr ''Mehr Labore''] fmempty)]))]"

text \<open>A response that carries only a text.\<close>

definition textResponse :: "string \<Rightarrow> GenerateContentResponse" where
  "textResponse s = \<lparr>responseText = Some s, groundingChunks = None\<rparr>"

text \<open>\<^verbatim>\<open>x.k\<close> for an \<open>x\<close> that was itself read from a property.\<close>

fun propOf :: "jv option \<Rightarrow> string \<Rightarrow> jv option" where
  "propOf None k = None"
| "propOf (Some x) k = getProp x k"

text \<open>
  What \<^verbatim>\<open>evaluateSyllabusContent\<close> sanitizes: the defaults overlaid with the parsed
  response.
\<close>

definition overlaid :: "(string \<Rightarrow> jv option) \<Rightarrow> GenerateContentResponse \<Rightarrow> obj" where
  "overlaid P response = spread defaultAnalysis (parseJSON P (orElse (responseText response) ''{}''))"

text \<open>A report with five top-level keys; \<open>sampleTranslation\<close> has lost two of them.\<close>

definition sampleReport :: obj where
  "sampleReport = fmap_of_list
     [(''courseTitle'', JStr ''Algorithms''),
      (''overallScore'', JNum 70),
      (''recommendations'', strings [''More labs'']),
      (''benchmarks'', emptyArray),
      (''tutors'', emptyArray)]"

text \<open>
  The portion of a text before the first occurrence of a marker (the whole text if the
  marker does not occur), to be compared with the first fragment that \<open>split\<close> returns.
\<close>

fun beforeFirst :: "string \<Rightarrow> string \<Rightarrow> string" where
  "beforeFirst sep [] = []"
| "beforeFirst sep (x # xs) =
     (if take (length sep) (x # xs) = sep then [] else x # beforeFirst sep xs)"

text \<open>Example answers of the search-grounded model.\<close>

definition sampleBenchmarkText :: string where
  "sampleBenchmarkText =
     ''Top pick:\<newline>University: MIT\<newline>Comparison: broader\<newline>BENCHMARK_ITEM\<newline>University: ETH\<newline>END_ITEM\<newline>''"

definition sampleStarText :: string where
  "sampleStarText =
     ''BENCHMARK_ITEM\<newline>**University:** **MIT**\<newline>**Comparison:** **Covers** more\<newline>END_ITEM''"

definition sampleTutorText :: string where
  "sampleTutorText =
     ''Here are the names:\<newline>TUTOR_ITEM\<newline>Name: **Dr. A**\<newline>Specialization: **AI**\<newline>END_ITEM''"

section \<open>The bounded-time wrapper\<close>

lemma withTimeout_cases:
  "withTimeout p ms msg =
     (case p of
        Pending \<Rightarrow> Settled ms (Inl (Error msg))
      | Settled t r \<Rightarrow> if t \<le> ms then Settled t r else Settled ms (Inl (Error msg)))"
  by (cases p) (simp_all add: withTimeout_def timeoutPromise_def)

text \<open>
  Claim C10. If the wrapped operation rejects before the deadline, \<open>withTimeout\<close> settles
  with that very rejection, at the same instant. Whenever \<open>withTimeout\<close> settles otherwise
  than the wrapped operation, it settles at the deadline with the caller's message, and the
  operation was pending for ever or settled only after the deadline.
\<close>

theorem withTimeout_rejection_propagates:
  "(t < ms \<longrightarrow> withTimeout (Settled t (Inl e)) ms msg = Settled t (Inl e)) \<and>
   (withTimeout p ms msg \<noteq> p \<longrightarrow>
      withTimeout p ms msg = Settled ms (Inl (Error msg)) \<and>
      (p = Pending \<or> (\<exists>u r. p = Settled u r \<and> ms < u)))"
  by (cases p) (auto simp: withTimeout_cases)

theorem withTimeout_rejection_propagates_witness:
  "(10::nat) < 60000 \<and>
   withTimeout (Settled 10 (Inl (Error ''503'')) :: unit promise) 60000 ''Analysis timed out (60s).''
     = Settled 10 (Inl (Error ''503'')) \<and>
   withTimeout (Pending :: unit promise) 60000 ''Analysis timed out (60s).'' \<noteq> Pending \<and>
   withTimeout (Pending :: unit promise) 60000 ''Analysis timed out (60s).''
     = Settled 60000 (Inl (Error ''Analysis timed out (60s).''))"
  using withTimeout_rejection_propagates
          [of 10 60000 "Error ''503''" "''Analysis timed out (60s).''" "Pending :: unit promise"]
  by (simp add: withTimeout_def timeoutPromise_def)

section \<open>The search-grounded stages\<close>

lemma attachUrl_nonempty: "attachUrl cs rs = [] \<longleftrightarrow> rs = []"
  by (auto simp: attachUrl_def split: option.splits list.splits)


lemma performBenchmarking_with_client:
  "performBenchmarking (Inr client) request =
     (case withTimeout request 90000 ''Benchmarking search timed out.'' of
        Pending \<Rightarrow> Pending
      | Settled t (Inl e) \<Rightarrow> Settled t (Inr [searchUnavailable])
      | Settled t (Inr response) \<Rightarrow> Settled t (Inr (benchmarksOf response)))"
  by (simp add: performBenchmarking_def)

lemma findLocalTutors_with_client:
  "findLocalTutors (Inr client) request =
     (case withTimeout request 90000 ''Tutor search timed out.'' of
        Pending \<Rightarrow> Pending
      | Settled t (Inl e) \<Rightarrow> Settled t (Inr [])
      | Settled t (Inr response) \<Rightarrow>
          Settled t (Inr (parseTutors (orElse (responseText response) []))))"
  by (simp add: findLocalTutors_def)

lemma performBenchmarking_value:
  assumes "performBenchmarking getClient request = Settled t (Inr rs)"
  shows "rs = [searchUnavailable] \<or>
         (\<exists>response. request = Settled t (Inr response) \<and> rs = benchmarksOf response)"
proof (cases getClient)
  case (Inl thrown)
  with assms show ?thesis by (simp add: performBenchmarking_def)
next
  case (Inr client)
  show ?thesis
  proof (cases request)
    case Pending
    with assms Inr show ?thesis
      by (simp add: performBenchmarking_with_client withTimeout_cases)
  next
    case (Settled u r)
    show ?thesis
    proof (cases r)
      case (Inl e)
      with assms Inr Settled show ?thesis
        by (simp add: performBenchmarking_with_client withTimeout_cases split: if_splits)
    next
      case response: (Inr response)
      with assms Inr Settled show ?thesis
        by (simp add: performBenchmarking_with_client withTimeout_cases split: if_splits)
    qed
  qed
qed

lemma findLocalTutors_value:
  assumes "findLocalTutors getClient request = Settled t (Inr ts)"
  shows "ts = [] \<or>
         (\<exists>response. request = Settled t (Inr response) \<and>
                      ts = parseTutors (orElse (responseText response) []))"
proof (cases getClient)
  case (Inl thrown)
  with assms show ?thesis by (simp add: findLocalTutors_def)
next
  case (Inr client)
  show ?thesis
  proof (cases request)
    case Pending
    with assms Inr show ?thesis
      by (simp add: findLocalTutors_with_client withTimeout_cases)
  next
    case (Settled u r)
    show ?thesis
    proof (cases r)
      case (Inl e)
      with assms Inr Settled show ?thesis
        by (simp add: findLocalTutors_with_client withTimeout_cases split: if_splits)
    next
      case response: (Inr response)
      with assms Inr Settled show ?thesis
        by (simp add: findLocalTutors_with_client withTimeout_cases split: if_splits)
    qed
  qed
qed



text \<open>
  Claim C5, as amended. Once \<^verbatim>\<open>getClient()\<close> has returned the handle, both
  search-grounded stages always settle with a value: whenever the awaited call rejects (the
  wrapped operation rejected, or the deadline came first), \<open>performBenchmarking\<close> yields
  exactly the one record "Search Unavailable", whose comparison text contains "timeout", and
  \<open>findLocalTutors\<close> yields the empty list.
\<close>

theorem search_stage_failures_absorbed:
  "(\<exists>t rs. performBenchmarking (Inr client) request = Settled t (Inr rs)) \<and>
   (\<exists>t rs. findLocalTutors (Inr client) request = Settled t (Inr rs)) \<and>
   (\<forall>t e. withTimeout request 90000 ''Benchmarking search timed out.'' = Settled t (Inl e) \<longrightarrow>
      performBenchmarking (Inr client) request =
        Settled t (Inr [\<lparr>university = ''Search Unavailable'',
                         comparison = ''Benchmarking skipped due to connection timeout or error.'',
                         url = None\<rparr>])) \<and>
   (\<forall>t e. withTimeout request 90000 ''Tutor search timed out.'' = Settled t (Inl e) \<longrightarrow>
      findLocalTutors (Inr client) request = Settled t (Inr [])) \<and>
   (\<exists>pre post. ''Benchmarking skipped due to connection timeout or error.''
                  = pre @ ''timeout'' @ post)"
proof -
  have "''Benchmarking skipped due to connection timeout or error.''
          = ''Benchmarking skipped due to connection '' @ ''timeout'' @ '' or error.''"
    by simp
  then have sub: "\<exists>pre post. ''Benchmarking skipped due to connection timeout or error.''
                               = pre @ ''timeout'' @ post"
    by blast
  show ?thesis
    using sub
    by (cases request)
       (auto simp: performBenchmarking_with_client findLocalTutors_with_client withTimeout_cases
                   searchUnavailable_def
             split: sum.splits)
qed

theorem search_stage_failures_absorbed_witness:
  "withTimeout (Pending :: GenerateContentResponse promise) 90000 ''Benchmarking search timed out.''
     = Settled 90000 (Inl (Error ''Benchmarking search timed out.'')) \<and>
   performBenchmarking (Inr GoogleGenAI) Pending =
     Settled 90000 (Inr [\<lparr>university = ''Search Unavailable'',
                         comparison = ''Benchmarking skipped due to connection timeout or error.'',
                         url = None\<rparr>]) \<and>
   findLocalTutors (Inr GoogleGenAI) (Settled 7 (Inl (Error ''quota exceeded'')))
     = Settled 7 (Inr [])"
  using search_stage_failures_absorbed [of GoogleGenAI Pending]
        search_stage_failures_absorbed [of GoogleGenAI "Settled 7 (Inl (Error ''quota exceeded''))"]
  by (simp add: withTimeout_def timeoutPromise_def)

text \<open>
  The claim as stated fails: an exception that \<^verbatim>\<open>getClient()\<close> throws is raised
  inside the stage but before its \<^verbatim>\<open>try\<close> block, so both stages reject with it
  instead of yielding their fallback.
\<close>

theorem search_stage_getClient_counterexample:
  "performBenchmarking (Inl (Error ''API key missing'')) Pending
     = Settled 0 (Inl (Error ''API key missing'')) \<and>
   findLocalTutors (Inl (Error ''API key missing'')) Pending
     = Settled 0 (Inl (Error ''API key missing''))"
  by (simp add: performBenchmarking_def findLocalTutors_def)

section \<open>Sanitization of the parsed report\<close>

lemma arrayOr_lookup:
  "fmlookup (arrayOr k d ob) k' =
     (if k' = k \<and> \<not> isArray (fmlookup ob k) then Some d else fmlookup ob k')"
  by (simp add: arrayOr_def)

lemma isArray_emptyArray [simp]: "isArray (Some emptyArray)"
  by (simp add: emptyArray_def)

lemma isArray_strings [simp]: "isArray (Some (strings xs))"
  by (simp add: strings_def)

lemma sanitizeLists_plain:
  "k \<in> set plainListKeys \<Longrightarrow>
   fmlookup (sanitizeLists fd) k =
     (if isArray (fmlookup fd k) then fmlookup fd k else Some emptyArray)"
  by (auto simp: plainListKeys_def sanitizeLists_def arrayOr_lookup)

lemma sanitizeLists_topics:
  "fmlookup (sanitizeLists fd) ''syllabusTopics'' =
     (if isArray (fmlookup fd ''syllabusTopics'') then fmlookup fd ''syllabusTopics''
      else Some (strings [''Topics not extracted'']))"
  by (simp add: sanitizeLists_def arrayOr_lookup)

lemma sanitizeLists_other:
  "k \<notin> set plainListKeys \<Longrightarrow> k \<noteq> ''syllabusTopics'' \<Longrightarrow>
   fmlookup (sanitizeLists fd) k = fmlookup fd k"
  by (simp add: plainListKeys_def sanitizeLists_def arrayOr_lookup)

lemma objectLike_cases:
  "truthy G \<and> typeOf G = ''object'' \<longleftrightarrow> (\<exists>m. G = Some (JObj m)) \<or> (\<exists>xs p. G = Some (JArr xs p))"
proof (cases G)
  case None
  then show ?thesis by simp
next
  case (Some v)
  then show ?thesis by (cases v) simp_all
qed

lemma arrayOrProp_get:
  "truthy (Some x) \<Longrightarrow> typeOf (Some x) = ''object'' \<Longrightarrow>
   getProp (arrayOrProp k d x) k' =
     (if k' = k \<and> \<not> isArray (getProp x k) then Some d else getProp x k')"
  by (cases x) (simp_all add: arrayOrProp_def)

lemma arrayOrProp_objectLike:
  "truthy (Some x) \<Longrightarrow> typeOf (Some x) = ''object'' \<Longrightarrow>
   truthy (Some (arrayOrProp k d x)) \<and> typeOf (Some (arrayOrProp k d x)) = ''object''"
  by (cases x) (simp_all add: arrayOrProp_def)

lemma sanitizeGapAnalysis_other:
  "k \<noteq> ''gapAnalysis'' \<Longrightarrow> fmlookup (sanitizeGapAnalysis fd) k = fmlookup fd k"
  by (simp add: sanitizeGapAnalysis_def Let_def split: option.splits)

lemma sanitizeGapAnalysis_default:
  "\<not> truthy (fmlookup fd ''gapAnalysis'') \<or> typeOf (fmlookup fd ''gapAnalysis'') \<noteq> ''object'' \<Longrightarrow>
   fmlookup (sanitizeGapAnalysis fd) ''gapAnalysis'' = Some defaultGapAnalysis"
  by (simp add: sanitizeGapAnalysis_def Let_def)

lemma sanitizeGapAnalysis_object:
  assumes "fmlookup fd ''gapAnalysis'' = Some G"
      and "truthy (Some G)" and "typeOf (Some G) = ''object''"
  shows "\<exists>g. fmlookup (sanitizeGapAnalysis fd) ''gapAnalysis'' = Some g \<and>
             (\<forall>k \<in> set gapKeys.
                getProp g k = (if isArray (getProp G k) then getProp G k else Some emptyArray))"
proof -
  let ?g1 = "arrayOrProp ''missingComponents'' emptyArray G"
  let ?g2 = "arrayOrProp ''weaknesses'' emptyArray ?g1"
  let ?g3 = "arrayOrProp ''strengths'' emptyArray ?g2"
  have o1: "truthy (Some ?g1) \<and> typeOf (Some ?g1) = ''object''"
    using assms arrayOrProp_objectLike by blast
  have o2: "truthy (Some ?g2) \<and> typeOf (Some ?g2) = ''object''"
    using o1 arrayOrProp_objectLike by blast
  have res: "fmlookup (sanitizeGapAnalysis fd) ''gapAnalysis'' = Some ?g3"
    using assms by (simp add: sanitizeGapAnalysis_def Let_def)
  have g1: "\<And>k'. getProp ?g1 k' =
      (if k' = ''missingComponents'' \<and> \<not> isArray (getProp G ''missingComponents'')
       then Some emptyArray else getProp G k')"
    using assms by (simp add: arrayOrProp_get)
  have g2: "\<And>k'. getProp ?g2 k' =
      (if k' = ''weaknesses'' \<and> \<not> isArray (getProp ?g1 ''weaknesses'')
       then Some emptyArray else getProp ?g1 k')"
    using o1 by (simp add: arrayOrProp_get)
  have g3: "\<And>k'. getProp ?g3 k' =
      (if k' = ''strengths'' \<and> \<not> isArray (getProp ?g2 ''strengths'')
       then Some emptyArray else getProp ?g2 k')"
    using o2 by (simp add: arrayOrProp_get)
  have "\<forall>k \<in> set gapKeys.
          getProp ?g3 k = (if isArray (getProp G k) then getProp G k else Some emptyArray)"
    unfolding gapKeys_def by (simp add: g3 g2 g1)
  with res show ?thesis by blast
qed

lemma default_gap_lists:
  "\<forall>k \<in> set gapKeys. isArray (getProp defaultGapAnalysis k)"
  by (simp add: gapKeys_def defaultGapAnalysis_def)

lemma sanitizeGapAnalysis_lists:
  "\<exists>g. fmlookup (sanitizeGapAnalysis fd) ''gapAnalysis'' = Some g \<and>
       (\<forall>k \<in> set gapKeys. isArray (getProp g k))"
proof (cases "truthy (fmlookup fd ''gapAnalysis'') \<and> typeOf (fmlookup fd ''gapAnalysis'') = ''object''")
  case True
  then obtain G where G: "fmlookup fd ''gapAnalysis'' = Some G"
    by (cases "fmlookup fd ''gapAnalysis''") auto
  with True sanitizeGapAnalysis_object [OF G]
  obtain g where "fmlookup (sanitizeGapAnalysis fd) ''gapAnalysis'' = Some g"
    and "\<forall>k \<in> set gapKeys.
           getProp g k = (if isArray (getProp G k) then getProp G k else Some emptyArray)"
    by auto
  then show ?thesis by auto
next
  case False
  then show ?thesis
    using sanitizeGapAnalysis_default [of fd] default_gap_lists by auto
qed

lemma spread_lookup:
  "fmlookup (spread a x) k =
     (if k |\<in>| fmdom (ownProps x) then fmlookup (ownProps x) k else fmlookup a k)"
  by (simp add: spread_def)

lemma spread_default_defined:
  "k \<in> set reportKeys \<Longrightarrow> fmlookup (spread defaultAnalysis x) k \<noteq> None"
  by (auto simp: spread_lookup reportKeys_def defaultAnalysis_def fmlookup_dom_iff)

section \<open>The structured extraction stage and the translation merge\<close>

lemma analysisOf_overlaid: "analysisOf P response = sanitizeGapAnalysis (sanitizeLists (overlaid P response))"
  by (simp add: analysisOf_def overlaid_def Let_def)

lemma gapAnalysis_not_list_key:
  "''gapAnalysis'' \<notin> set plainListKeys" "''gapAnalysis'' \<noteq> ''syllabusTopics''"
  by (simp_all add: plainListKeys_def)

lemma list_keys_not_gapAnalysis:
  "k \<in> set plainListKeys \<Longrightarrow> k \<noteq> ''gapAnalysis''"
  by (auto simp: plainListKeys_def)

lemma analysisOf_plain:
  "k \<in> set plainListKeys \<Longrightarrow>
   fmlookup (analysisOf P response) k =
     (if isArray (fmlookup (overlaid P response) k) then fmlookup (overlaid P response) k
      else Some emptyArray)"
  by (simp add: analysisOf_overlaid sanitizeGapAnalysis_other list_keys_not_gapAnalysis
                sanitizeLists_plain)

lemma analysisOf_topics:
  "fmlookup (analysisOf P response) ''syllabusTopics'' =
     (if isArray (fmlookup (overlaid P response) ''syllabusTopics'')
      then fmlookup (overlaid P response) ''syllabusTopics''
      else Some (strings [''Topics not extracted'']))"
  by (simp add: analysisOf_overlaid sanitizeGapAnalysis_other sanitizeLists_topics)

lemma analysisOf_gap_lists:
  "\<forall>k \<in> set gapKeys. isArray (propOf (fmlookup (analysisOf P response) ''gapAnalysis'') k)"
  using sanitizeGapAnalysis_lists [of "sanitizeLists (overlaid P response)"]
  by (auto simp: analysisOf_overlaid)

lemma analysisOf_gap_default:
  assumes "\<not> (truthy (fmlookup (overlaid P response) ''gapAnalysis'') \<and>
              typeOf (fmlookup (overlaid P response) ''gapAnalysis'') = ''object'')"
  shows "fmlookup (analysisOf P response) ''gapAnalysis'' = Some defaultGapAnalysis"
proof -
  have "fmlookup (sanitizeLists (overlaid P response)) ''gapAnalysis''
          = fmlookup (overlaid P response) ''gapAnalysis''"
    by (simp add: sanitizeLists_other gapAnalysis_not_list_key)
  with assms show ?thesis
    by (simp add: analysisOf_overlaid sanitizeGapAnalysis_default)
qed

lemma analysisOf_gap_object:
  assumes "truthy (fmlookup (overlaid P response) ''gapAnalysis'')"
      and "typeOf (fmlookup (overlaid P response) ''gapAnalysis'') = ''object''"
  shows "\<forall>k \<in> set gapKeys.
           propOf (fmlookup (analysisOf P response) ''gapAnalysis'') k =
             (if isArray (propOf (fmlookup (overlaid P response) ''gapAnalysis'') k)
              then propOf (fmlookup (overlaid P response) ''gapAnalysis'') k
              else Some emptyArray)"
proof -
  obtain G where G: "fmlookup (overlaid P response) ''gapAnalysis'' = Some G"
    using assms(1) by (cases "fmlookup (overlaid P response) ''gapAnalysis''") auto
  have G': "fmlookup (sanitizeLists (overlaid P response)) ''gapAnalysis'' = Some G"
    using G by (simp add: sanitizeLists_other gapAnalysis_not_list_key)
  from sanitizeGapAnalysis_object [OF G'] assms G
  obtain g where "fmlookup (sanitizeGapAnalysis (sanitizeLists (overlaid P response))) ''gapAnalysis'' = Some g"
    and "\<forall>k \<in> set gapKeys.
           getProp g k = (if isArray (getProp G k) then getProp G k else Some emptyArray)"
    by auto
  then show ?thesis
    by (simp add: analysisOf_overlaid G)
qed

lemma analysisOf_defined:
  assumes "k \<in> set reportKeys"
  shows "fmlookup (analysisOf P response) k \<noteq> None"
proof -
  consider "k = ''gapAnalysis''" | "k = ''syllabusTopics''" | "k \<in> set plainListKeys"
    | "k \<noteq> ''gapAnalysis''" "k \<noteq> ''syllabusTopics''" "k \<notin> set plainListKeys"
    by blast
  then show ?thesis
  proof cases
    case 1
    then show ?thesis
      using sanitizeGapAnalysis_lists [of "sanitizeLists (overlaid P response)"]
      by (auto simp: analysisOf_overlaid)
  next
    case 2
    then show ?thesis
      by (cases "fmlookup (overlaid P response) ''syllabusTopics''")
         (auto simp: analysisOf_topics)
  next
    case 3
    then show ?thesis
      by (cases "fmlookup (overlaid P response) k") (auto simp: analysisOf_plain)
  next
    case 4
    then have "fmlookup (analysisOf P response) k = fmlookup (overlaid P response) k"
      by (simp add: analysisOf_overlaid sanitizeGapAnalysis_other sanitizeLists_other)
    then show ?thesis
      using assms spread_default_defined [of k] by (simp add: overlaid_def)
  qed
qed

lemma evaluate_on_response:
  "t \<le> 60000 \<Longrightarrow>
   evaluateSyllabusContent P (Settled t (Inr response)) = Settled t (Inr (analysisOf P response))"
  by (simp add: evaluateSyllabusContent_def withTimeout_cases)

lemma evaluate_value:
  assumes "evaluateSyllabusContent P request = Settled t (Inr fd)"
  shows "\<exists>response. request = Settled t (Inr response) \<and> fd = analysisOf P response"
  using assms
  by (cases request)
     (auto simp: evaluateSyllabusContent_def withTimeout_cases split: if_splits sum.splits)

text \<open>
  Claim C1, as amended. In every report that \<open>evaluateSyllabusContent\<close> emits, each of
  \<^verbatim>\<open>gapAnalysis.missingComponents\<close>, \<^verbatim>\<open>weaknesses\<close> and
  \<^verbatim>\<open>strengths\<close> is a list. If the \<^verbatim>\<open>gapAnalysis\<close> of the overlaid
  response is missing, falsy or not an object, the report carries the default object with its
  three one-element placeholder lists. Otherwise a sub-field that is a list is kept as the
  model gave it (also when it is empty) and a sub-field that is not a list becomes the empty
  list.
\<close>

theorem evaluate_gapAnalysis_lists:
  assumes "evaluateSyllabusContent P request = Settled t (Inr fd)"
  shows "\<exists>response.
           request = Settled t (Inr response) \<and>
           (\<forall>k \<in> set gapKeys. isArray (propOf (fmlookup fd ''gapAnalysis'') k)) \<and>
           (if truthy (fmlookup (overlaid P response) ''gapAnalysis'') \<and>
               typeOf (fmlookup (overlaid P response) ''gapAnalysis'') = ''object''
            then \<forall>k \<in> set gapKeys.
                   propOf (fmlookup fd ''gapAnalysis'') k =
                     (if isArray (propOf (fmlookup (overlaid P response) ''gapAnalysis'') k)
                      then propOf (fmlookup (overlaid P response) ''gapAnalysis'') k
                      else Some emptyArray)
            else fmlookup fd ''gapAnalysis'' = Some defaultGapAnalysis)"
proof -
  from evaluate_value [OF assms] obtain response
    where r: "request = Settled t (Inr response)" and fd: "fd = analysisOf P response"
    by blast
  show ?thesis
    using r fd analysisOf_gap_lists [of P response] analysisOf_gap_object [of P response]
          analysisOf_gap_default [of P response]
    by auto
qed

theorem evaluate_gapAnalysis_lists_witness:
  "evaluateSyllabusContent sampleJSON (Settled 900 (Inr (textResponse ''n/a'')))
     = Settled 900 (Inr (analysisOf sampleJSON (textResponse ''n/a''))) \<and>
   fmlookup (analysisOf sampleJSON (textResponse ''n/a'')) ''gapAnalysis''
     = Some defaultGapAnalysis \<and>
   isArray (propOf (fmlookup (analysisOf sampleJSON (textResponse ''n/a'')) ''gapAnalysis'')
              ''weaknesses'')"
proof -
  have run: "evaluateSyllabusContent sampleJSON (Settled 900 (Inr (textResponse ''n/a'')))
               = Settled 900 (Inr (analysisOf sampleJSON (textResponse ''n/a'')))"
    by (simp add: evaluate_on_response)
  have dflt: "fmlookup (analysisOf sampleJSON (textResponse ''n/a'')) ''gapAnalysis''
                = Some defaultGapAnalysis"
    by code_simp
  show ?thesis
    using evaluate_gapAnalysis_lists [OF run] run dflt
    by (simp add: gapKeys_def)
qed

text \<open>
  The claim as stated fails: for the response text \<open>sampleGapText\<close>, whose
  \<^verbatim>\<open>missingComponents\<close> is an empty list, whose \<^verbatim>\<open>weaknesses\<close> is a string
  and which has no \<^verbatim>\<open>strengths\<close>, all three lists of the emitted report are empty.
\<close>

theorem gapAnalysis_lists_counterexample:
  "evaluateSyllabusContent sampleJSON (Settled 900 (Inr (textResponse sampleGapText)))
     = Settled 900 (Inr (analysisOf sampleJSON (textResponse sampleGapText))) \<and>
   propOf (fmlookup (analysisOf sampleJSON (textResponse sampleGapText)) ''gapAnalysis'')
       ''missingComponents'' = Some (JArr [] fmempty) \<and>
   propOf (fmlookup (analysisOf sampleJSON (textResponse sampleGapText)) ''gapAnalysis'')
       ''weaknesses'' = Some (JArr [] fmempty) \<and>
   propOf (fmlookup (analysisOf sampleJSON (textResponse sampleGapText)) ''gapAnalysis'')
       ''strengths'' = Some (JArr [] fmempty)"
proof -
  have "propOf (fmlookup (analysisOf sampleJSON (textResponse sampleGapText)) ''gapAnalysis'')
          ''missingComponents'' = Some (JArr [] fmempty)"
    by code_simp
  moreover
  have "propOf (fmlookup (analysisOf sampleJSON (textResponse sampleGapText)) ''gapAnalysis'')
          ''weaknesses'' = Some (JArr [] fmempty)"
    by code_simp
  moreover
  have "propOf (fmlookup (analysisOf sampleJSON (textResponse sampleGapText)) ''gapAnalysis'')
          ''strengths'' = Some (JArr [] fmempty)"
    by code_simp
  ultimately show ?thesis
    by (simp add: evaluate_on_response)
qed

text \<open>
  Claim C2, as amended. When the wrapped model call yields a response before the 60 s
  deadline, then whatever the response text is the stage settles with a report in which all
  eight keys of the skeleton are defined, the five list fields are lists and the three
  gap-analysis fields are lists. When the awaited call rejects (the model call rejected, or
  the deadline came first) the stage rejects with the same error.
\<close>

theorem evaluate_complete_on_response:
  "(t < 60000 \<longrightarrow>
      evaluateSyllabusContent P (Settled t (Inr response))
        = Settled t (Inr (analysisOf P response)) \<and>
      (\<forall>k \<in> set reportKeys. fmlookup (analysisOf P response) k \<noteq> None) \<and>
      (\<forall>k \<in> set (''syllabusTopics'' # plainListKeys). isArray (fmlookup (analysisOf P response) k)) \<and>
      (\<forall>k \<in> set gapKeys. isArray (propOf (fmlookup (analysisOf P response) ''gapAnalysis'') k))) \<and>
   (\<forall>u e. withTimeout request 60000 ''Analysis timed out (60s).'' = Settled u (Inl e) \<longrightarrow>
      evaluateSyllabusContent P request = Settled u (Inl e))"
proof -
  have lists: "\<forall>k \<in> set (''syllabusTopics'' # plainListKeys). isArray (fmlookup (analysisOf P response) k)"
    by (auto simp: analysisOf_topics analysisOf_plain)
  have rej: "\<forall>u e. withTimeout request 60000 ''Analysis timed out (60s).'' = Settled u (Inl e) \<longrightarrow>
      evaluateSyllabusContent P request = Settled u (Inl e)"
    by (simp add: evaluateSyllabusContent_def)
  show ?thesis
    using lists rej analysisOf_defined [of _ P response] analysisOf_gap_lists [of P response]
          evaluate_on_response [of t P response]
    by auto
qed

theorem evaluate_complete_on_response_witness:
  "(900::nat) < 60000 \<and>
   evaluateSyllabusContent sampleJSON (Settled 900 (Inr (textResponse ''n/a'')))
     = Settled 900 (Inr (analysisOf sampleJSON (textResponse ''n/a''))) \<and>
   fmlookup (analysisOf sampleJSON (textResponse ''n/a'')) ''courseTitle'' \<noteq> None \<and>
   isArray (fmlookup (analysisOf sampleJSON (textResponse ''n/a'')) ''sectionScores'') \<and>
   evaluateSyllabusContent sampleJSON Pending
     = Settled 60000 (Inl (Error ''Analysis timed out (60s).''))"
  using evaluate_complete_on_response [of 900 sampleJSON "textResponse ''n/a''" Pending]
  by (simp add: reportKeys_def plainListKeys_def withTimeout_def timeoutPromise_def)

text \<open>
  The claim as stated fails: a model call that never answers makes the stage reject with the
  timeout error, and a model call that rejects makes it reject with that rejection.
\<close>

theorem evaluate_never_fails_counterexample:
  "evaluateSyllabusContent sampleJSON Pending
     = Settled 60000 (Inl (Error ''Analysis timed out (60s).'')) \<and>
   evaluateSyllabusContent sampleJSON (Settled 40 (Inl (Error ''503 Service Unavailable'')))
     = Settled 40 (Inl (Error ''503 Service Unavailable''))"
  by (simp add: evaluateSyllabusContent_def withTimeout_def timeoutPromise_def)

text \<open>
  Claim C4, as amended. In the sanitization pass a list value of a list-typed field is kept
  and a value that is not a list is never left as it is: \<^verbatim>\<open>sectionScores\<close>,
  \<^verbatim>\<open>recommendations\<close>, \<^verbatim>\<open>revisedILOs\<close> and \<^verbatim>\<open>suggestedActivities\<close>
  become the empty list, \<^verbatim>\<open>syllabusTopics\<close> becomes the one-element list
  "Topics not extracted", a gap-analysis sub-field becomes the empty list, and a
  \<^verbatim>\<open>gapAnalysis\<close> that is falsy or not an object becomes the default object with
  its placeholder lists.
\<close>

theorem sanitization_coerces_lists:
  "(\<forall>k \<in> set plainListKeys.
      fmlookup (analysisOf P response) k =
        (if isArray (fmlookup (overlaid P response) k) then fmlookup (overlaid P response) k
         else Some emptyArray)) \<and>
   fmlookup (analysisOf P response) ''syllabusTopics'' =
     (if isArray (fmlookup (overlaid P response) ''syllabusTopics'')
      then fmlookup (overlaid P response) ''syllabusTopics''
      else Some (strings [''Topics not extracted''])) \<and>
   (if truthy (fmlookup (overlaid P response) ''gapAnalysis'') \<and>
       typeOf (fmlookup (overlaid P response) ''gapAnalysis'') = ''object''
    then \<forall>k \<in> set gapKeys.
           propOf (fmlookup (analysisOf P response) ''gapAnalysis'') k =
             (if isArray (propOf (fmlookup (overlaid P response) ''gapAnalysis'') k)
              then propOf (fmlookup (overlaid P response) ''gapAnalysis'') k
              else Some emptyArray)
    else fmlookup (analysisOf P response) ''gapAnalysis'' = Some defaultGapAnalysis)"
  using analysisOf_plain [of _ P response] analysisOf_topics [of P response]
        analysisOf_gap_object [of P response] analysisOf_gap_default [of P response]
  by auto

theorem sanitization_coerces_lists_witness:
  "fmlookup (overlaid sampleJSON (textResponse sampleListText)) ''revisedILOs''
     = Some (JStr ''none'') \<and>
   fmlookup (analysisOf sampleJSON (textResponse sampleListText)) ''revisedILOs''
     = Some emptyArray \<and>
   fmlookup (overlaid sampleJSON (textResponse sampleListText)) ''sectionScores''
     = Some emptyArray \<and>
   fmlookup (analysisOf sampleJSON (textResponse sampleListText)) ''sectionScores''
     = Some emptyArray"
proof -
  have a: "fmlookup (overlaid sampleJSON (textResponse sampleListText)) ''revisedILOs''
             = Some (JStr ''none'')"
    by code_simp
  have b: "fmlookup (overlaid sampleJSON (textResponse sampleListText)) ''sectionScores''
             = Some emptyArray"
    by code_simp
  show ?thesis
    using sanitization_coerces_lists [of sampleJSON "textResponse sampleListText"] a b
    by (simp add: plainListKeys_def emptyArray_def)
qed

text \<open>
  The claim as stated fails: for the response text \<open>sampleListText\<close> the string-valued
  \<^verbatim>\<open>revisedILOs\<close> becomes the empty list, not a placeholder list, and the
  \<^verbatim>\<open>null\<close> \<^verbatim>\<open>syllabusTopics\<close> becomes a one-element list, not the empty
  list.
\<close>

theorem sanitization_placeholders_counterexample:
  "evaluateSyllabusContent sampleJSON (Settled 900 (Inr (textResponse sampleListText)))
     = Settled 900 (Inr (analysisOf sampleJSON (textResponse sampleListText))) \<and>
   fmlookup (analysisOf sampleJSON (textResponse sampleListText)) ''revisedILOs''
     = Some (JArr [] fmempty) \<and>
   fmlookup (analysisOf sampleJSON (textResponse sampleListText)) ''syllabusTopics''
     = Some (JArr [JStr ''Topics not extracted''] fmempty)"
proof -
  have "fmlookup (analysisOf sampleJSON (textResponse sampleListText)) ''revisedILOs''
          = Some (JArr [] fmempty)"
    by code_simp
  moreover
  have "fmlookup (analysisOf sampleJSON (textResponse sampleListText)) ''syllabusTopics''
          = Some (JArr [JStr ''Topics not extracted''] fmempty)"
    by code_simp
  ultimately show ?thesis
    by (simp add: evaluate_on_response)
qed

text \<open>
  Claim C6. When the translation call yields a response before its deadline, every top-level
  key of the original report is defined in the merged result; it carries the value of the
  parsed translation if the translation has that key, and the original value otherwise.
\<close>

theorem translate_merge_keeps_keys:
  assumes "t < 60000" and "k |\<in>| fmdom data"
  shows "\<exists>merged.
           translateAnalysisResult P data (Settled t (Inr response)) = Settled t (Inr merged) \<and>
           fmlookup merged k \<noteq> None \<and>
           fmlookup merged k =
             (let parsed = parseJSON P (orElse (responseText response) ''{}'')
              in if k |\<in>| fmdom (ownProps parsed) then fmlookup (ownProps parsed) k
                 else fmlookup data k)"
  using assms
  by (auto simp: translateAnalysisResult_def withTimeout_cases Let_def spread_lookup
                 fmlookup_dom_iff)

theorem translate_merge_keeps_keys_witness:
  "(800::nat) < 60000 \<and> ''tutors'' |\<in>| fmdom sampleReport \<and>
   ''courseTitle'' |\<in>| fmdom sampleReport \<and>
   (\<exists>merged.
      translateAnalysisResult sampleJSON sampleReport
          (Settled 800 (Inr (textResponse sampleTranslation))) = Settled 800 (Inr merged) \<and>
      fmlookup merged ''tutors'' = fmlookup sampleReport ''tutors'' \<and>
      fmlookup merged ''tutors'' \<noteq> None \<and>
      fmlookup merged ''courseTitle'' = Some (JStr ''Algorithmen''))"
proof -
  have p: "parseJSON sampleJSON sampleTranslation =
             JObj (fmap_of_list
               [(''courseTitle'', JStr ''Algorithmen''), (''overallScore'', JNum 70),
                (''recommendations'', JArr [JStr ''Mehr Labore''] fmempty)])"
    by code_simp
  have t: "orElse (responseText (textResponse sampleTranslation)) ''{}'' = sampleTranslation"
    by code_simp
  have d1: "''tutors'' |\<in>| fmdom sampleReport"
    by (simp add: sampleReport_def)
  have d2: "''courseTitle'' |\<in>| fmdom sampleReport"
    by (simp add: sampleReport_def)
  have lt: "(800::nat) < 60000"
    by simp
  show ?thesis
    using translate_merge_keeps_keys [OF lt d1, of sampleJSON "textResponse sampleTranslation"]
          translate_merge_keeps_keys [OF lt d2, of sampleJSON "textResponse sampleTranslation"]
          d1 d2
    by (auto simp: p t)
qed

section \<open>The regular expressions\<close>

declare rx_match.simps [simp del] removeAll_rx.simps [simp del]

lemma lit_prefix_single: "lit_prefix False [r] s = (case s of [] \<Rightarrow> False | x # xs \<Rightarrow> x = r)"
  by (cases s) (auto simp: lit_prefix_def)

lemma rx_from_lit1:
  "rx_from False [Lit [r]] s g = (case s of [] \<Rightarrow> None | x # xs \<Rightarrow> if x = r then Some (g, xs) else None)"
  by (cases s) (simp_all add: lit_prefix_single)

lemma after_last_Cons:
  "rev (takeWhile (\<lambda>c. c \<noteq> r) (rev (x # xs))) =
     (if r \<in> set xs then rev (takeWhile (\<lambda>c. c \<noteq> r) (rev xs))
      else if x = r then xs else x # xs)"
  by (auto simp: takeWhile_append)

lemma rx_from_Star_Nil: "rx_from ci (Star c # as) [] g = rx_from ci as [] g"
  by simp

lemma rx_from_Star_Cons:
  "rx_from ci (Star c # as) (x # xs) g =
     (if in_cls c x
      then (case rx_from ci (Star c # as) xs g of
              Some r \<Rightarrow> Some r
            | None \<Rightarrow> rx_from ci as (x # xs) g)
      else rx_from ci as (x # xs) g)"
  by simp

lemma rx_from_star_any_lit:
  "rx_from False [Star AnyChar, Lit [r]] s g =
     (if r \<in> set s then Some (g, rev (takeWhile (\<lambda>c. c \<noteq> r) (rev s))) else None)"
proof (induction s)
  case Nil
  then show ?case by (simp add: lit_prefix_single)
next
  case (Cons x xs)
  show ?case
  proof (cases "r \<in> set xs")
    case True
    then show ?thesis
      by (simp only: rx_from_Star_Cons Cons.IH after_last_Cons) simp
  next
    case False
    then show ?thesis
      by (simp only: rx_from_Star_Cons Cons.IH after_last_Cons rx_from_lit1) auto
  qed
qed

lemma rx_from_enclosing:
  "rx_from False [Lit [l], Star AnyChar, Lit [r]] s g =
     (case s of
        [] \<Rightarrow> None
      | x # xs \<Rightarrow>
          if x = l \<and> r \<in> set xs
          then Some (g, rev (takeWhile (\<lambda>c. c \<noteq> r) (rev xs)))
          else None)"
  by (cases s) (simp_all add: lit_prefix_single rx_from_star_any_lit del: rx_from.simps(3))

lemma before_last:
  "take (length xs - length (takeWhile P (rev xs))) xs = rev (dropWhile P (rev xs))"
proof -
  have "rev xs = takeWhile P (rev xs) @ dropWhile P (rev xs)"
    by simp
  then have "xs = rev (dropWhile P (rev xs)) @ rev (takeWhile P (rev xs))"
    by (metis rev_append rev_rev_ident)
  then have "take (length (rev (dropWhile P (rev xs)))) xs = rev (dropWhile P (rev xs))"
    by (metis append_eq_conv_conj)
  moreover have "length (rev (dropWhile P (rev xs))) = length xs - length (takeWhile P (rev xs))"
    by (metis length_rev length_append add_diff_cancel_left' takeWhile_dropWhile_id)
  ultimately show ?thesis by simp
qed

lemma enclosed_Cons:
  "enclosed l r (x # xs) =
     (if x = l
      then (if r \<in> set xs then Some (l # rev (dropWhile (\<lambda>c. c \<noteq> r) (rev xs))) else None)
      else enclosed l r xs)"
  by (simp add: enclosed_def)

lemma enclosed_None: "r \<notin> set xs \<Longrightarrow> enclosed l r xs = None"
proof -
  assume a: "r \<notin> set xs"
  have "set (tl (dropWhile (\<lambda>c. c \<noteq> l) xs)) \<subseteq> set xs"
    by (metis list.set_sel(2) set_dropWhileD subsetI tl_Nil)
  with a show ?thesis by (auto simp: enclosed_def Let_def)
qed

lemma rx_match_enclosing:
  "rx_match False [Lit [l], Star AnyChar, Lit [r]] s =
     (case enclosed l r s of Some m \<Rightarrow> Some (m, []) | None \<Rightarrow> None)"
proof (induction s)
  case Nil
  show ?case
    by (subst rx_match.simps) (simp add: enclosed_def lit_prefix_single)
next
  case (Cons x xs)
  show ?case
  proof (cases "x = l \<and> r \<in> set xs")
    case True
    have "Suc (length xs) - length (takeWhile (\<lambda>c. c \<noteq> r) (rev xs))
            = Suc (length xs - length (takeWhile (\<lambda>c. c \<noteq> r) (rev xs)))"
      by (metis Suc_diff_le length_rev length_takeWhile_le)
    with True show ?thesis
      by (subst rx_match.simps)
         (simp add: rx_from_enclosing enclosed_Cons before_last del: rx_from.simps)
  next
    case False
    then have "rx_match False [Lit [l], Star AnyChar, Lit [r]] (x # xs)
                 = rx_match False [Lit [l], Star AnyChar, Lit [r]] xs"
      by (subst rx_match.simps) (auto simp: rx_from_enclosing simp del: rx_from.simps)
    moreover have "enclosed l r (x # xs) = enclosed l r xs"
      using False by (auto simp: enclosed_Cons enclosed_None)
    ultimately show ?thesis using Cons by simp
  qed
qed

section \<open>The delimited-text parsers\<close>

lemma removeAll_rx_Nil: "removeAll_rx [Lit [r]] [] = []"
  by (subst removeAll_rx.simps) (simp add: lit_prefix_single)

lemma removeAll_rx_Cons:
  "removeAll_rx [Lit [r]] (x # xs) =
     (if x = r then removeAll_rx [Lit [r]] xs else x # removeAll_rx [Lit [r]] xs)"
  by (subst removeAll_rx.simps) (simp add: lit_prefix_single)

lemma removeAll_rx_single: "removeAll_rx [Lit [r]] s = filter (\<lambda>c. c \<noteq> r) s"
  by (induction s) (simp_all add: removeAll_rx_Nil removeAll_rx_Cons)

lemma no_star: "CHR ''*'' \<notin> set (removeAll_rx starRx s)"
  by (simp add: starRx_def removeAll_rx_single)

lemma benchmarkStep_append: "benchmarkStep results item = results @ benchmarkStep [] item"
  by (simp add: benchmarkStep_def Let_def split: option.splits)

lemma tutorStep_append: "tutorStep results item = results @ tutorStep [] item"
  by (simp add: tutorStep_def Let_def split: option.splits)

lemma foldl_benchmarkStep:
  "foldl benchmarkStep results items = results @ concat (map (benchmarkStep []) items)"
proof (induction items arbitrary: results)
  case Nil
  then show ?case by simp
next
  case (Cons item items)
  show ?case
    using Cons [of "benchmarkStep results item"] benchmarkStep_append [of results item]
    by simp
qed

lemma foldl_tutorStep:
  "foldl tutorStep results items = results @ concat (map (tutorStep []) items)"
proof (induction items arbitrary: results)
  case Nil
  then show ?case by simp
next
  case (Cons item items)
  show ?case
    using Cons [of "tutorStep results item"] tutorStep_append [of results item]
    by simp
qed

lemma benchmarkStep_length:
  "length (benchmarkStep [] item) =
     (if rx_match True uniRx item \<noteq> None \<and> rx_match True compRx item \<noteq> None then 1 else 0)"
  by (auto simp: benchmarkStep_def Let_def split: option.splits)

lemma tutorStep_length:
  "length (tutorStep [] item) = (if rx_match True nameRx item \<noteq> None then 1 else 0)"
  by (auto simp: tutorStep_def Let_def split: option.splits)

lemma benchmarkStep_no_star:
  "r \<in> set (benchmarkStep [] item) \<Longrightarrow> CHR ''*'' \<notin> set (university r)"
  by (auto simp: benchmarkStep_def Let_def no_star split: option.splits)

lemma tutorStep_no_star:
  "r \<in> set (tutorStep [] item) \<Longrightarrow>
   CHR ''*'' \<notin> set (name r) \<and> CHR ''*'' \<notin> set (affiliation r) \<and> CHR ''*'' \<notin> set (email r)"
  by (auto simp: tutorStep_def Let_def no_star split: option.splits)

lemma parseBenchmarks_no_star:
  "r \<in> set (parseBenchmarks s) \<Longrightarrow> CHR ''*'' \<notin> set (university r)"
  by (auto simp: parseBenchmarks_def foldl_benchmarkStep dest: benchmarkStep_no_star)

lemma parseTutors_no_star:
  "r \<in> set (parseTutors s) \<Longrightarrow>
   CHR ''*'' \<notin> set (name r) \<and> CHR ''*'' \<notin> set (affiliation r) \<and> CHR ''*'' \<notin> set (email r)"
  using tutorStep_no_star by (auto simp: parseTutors_def foldl_tutorStep)

lemma attachUrl_university: "map university (attachUrl cs rs) = map university rs"
  by (auto simp: attachUrl_def split: option.splits list.splits)

lemma benchmarksOf_no_star:
  assumes "r \<in> set (benchmarksOf response)"
  shows "CHR ''*'' \<notin> set (university r)"
proof -
  let ?parsed = "parseBenchmarks (orElse (responseText response) [])"
  have "university r \<in> set (map university (benchmarksOf response))"
    using assms by simp
  moreover have "set (map university (attachUrl (groundingChunks response) ?parsed))
                   = set (map university ?parsed)"
    by (simp only: attachUrl_university)
  ultimately
  have "university r \<in> set (map university ?parsed) \<or> university r = university noData"
    by (simp add: benchmarksOf_def Let_def split: if_splits)
  then show ?thesis
    using parseBenchmarks_no_star by (auto simp: noData_def)
qed

section \<open>Claims about parseJSON and the delimited-text parsers\<close>

lemma split_scan_hd:
  "sep \<noteq> [] \<Longrightarrow> hd (split_scan sep acc s) = acc @ beforeFirst sep s"
proof (induction s arbitrary: acc)
  case Nil
  then show ?case by simp
next
  case (Cons x xs)
  then show ?case by (auto simp: eq_commute [of sep])
qed

lemma split_scan_nonempty: "split_scan sep acc s \<noteq> []"
  by (induction sep acc s rule: split_scan.induct) auto

lemma split_hd_tl:
  "sep \<noteq> [] \<Longrightarrow> split s sep = beforeFirst sep s # tl (split s sep)"
  using split_scan_hd [of sep "[]" s] split_scan_nonempty [of sep "[]" s]
  by (simp add: split_def) (metis list.collapse)

text \<open>
  Claim C3, as amended. \<open>parseJSON\<close> never raises and proceeds in this order. If the text
  has a \<^verbatim>\<open>{\<close> with a \<^verbatim>\<open>}\<close> somewhere after it, the text from the first
  \<^verbatim>\<open>{\<close> to the last \<^verbatim>\<open>}\<close> is parsed and the outcome is returned, the
  empty object if that parse fails. Otherwise, the same is done with \<^verbatim>\<open>[\<close> and
  \<^verbatim>\<open>]\<close>. Otherwise the text is parsed after its code-fence markers have been
  removed, again with the empty object on failure. No parse of the whole text comes first,
  and a failed parse ends the recovery.
\<close>

theorem parseJSON_recovery_order:
  "parseJSON P s =
     (case enclosed CHR ''{'' CHR ''}'' s of
        Some m \<Rightarrow> (case P m of Some v \<Rightarrow> v | None \<Rightarrow> JObj fmempty)
      | None \<Rightarrow>
          (case enclosed CHR ''['' CHR '']'' s of
             Some m \<Rightarrow> (case P m of Some v \<Rightarrow> v | None \<Rightarrow> JObj fmempty)
           | None \<Rightarrow>
               (case P (removeAll_rx fenceRx (removeAll_rx fenceJsonRx s)) of
                  Some v \<Rightarrow> v
                | None \<Rightarrow> JObj fmempty)))"
  by (simp add: parseJSON_def parseJSON_try_def JSON_parse_def objectRx_def arrayRx_def
                rx_match_enclosing Let_def
           split: option.splits)

theorem parseJSON_recovery_order_witness:
  "enclosed CHR ''{'' CHR ''}'' (''```json'' @ sampleListText @ ''```'') = Some sampleListText \<and>
   parseJSON sampleJSON (''```json'' @ sampleListText @ ''```'') =
     JObj (fmap_of_list [(''revisedILOs'', JStr ''none''), (''syllabusTopics'', JNull)])"
proof -
  have e: "enclosed CHR ''{'' CHR ''}'' (''```json'' @ sampleListText @ ''```'') = Some sampleListText"
    by code_simp
  have p: "sampleJSON sampleListText =
             Some (JObj (fmap_of_list [(''revisedILOs'', JStr ''none''), (''syllabusTopics'', JNull)]))"
    by code_simp
  show ?thesis
    using parseJSON_recovery_order [of sampleJSON "''```json'' @ sampleListText @ ''```''"] e p
    by simp
qed

text \<open>
  The claim as stated fails: the text \<^verbatim>\<open>[{},{}]\<close> parses as a whole (and is
  matched by the array pattern), but \<open>parseJSON\<close> extracts \<^verbatim>\<open>{},{}\<close>, fails to
  parse it and returns the empty object.
\<close>

theorem parseJSON_whole_text_counterexample:
  "sampleJSON ''[{},{}]'' = Some (JArr [JObj fmempty, JObj fmempty] fmempty) \<and>
   parseJSON sampleJSON ''[{},{}]'' = JObj fmempty"
proof -
  have "sampleJSON ''[{},{}]'' = Some (JArr [JObj fmempty, JObj fmempty] fmempty)"
    by code_simp
  moreover have "parseJSON sampleJSON ''[{},{}]'' = JObj fmempty"
    by code_simp
  ultimately show ?thesis by simp
qed

text \<open>
  Claim C7, as amended. Each parser splits the text on its start marker and scans every
  fragment, the text before the first marker included. A benchmark fragment yields one record
  exactly when both the University pattern and the Comparison pattern match in it, and a tutor
  fragment exactly when the Name pattern matches in it; otherwise it yields none. A fragment
  that yields no record leaves the records of the other fragments as they are.
\<close>

theorem delimited_parsers_scan_every_fragment:
  "parseBenchmarks s =
     benchmarkStep [] (beforeFirst ''BENCHMARK_ITEM'' s) @
     concat (map (benchmarkStep []) (tl (split s ''BENCHMARK_ITEM''))) \<and>
   parseTutors s =
     tutorStep [] (beforeFirst ''TUTOR_ITEM'' s) @
     concat (map (tutorStep []) (tl (split s ''TUTOR_ITEM''))) \<and>
   length (benchmarkStep [] item) =
     (if rx_match True uniRx item \<noteq> None \<and> rx_match True compRx item \<noteq> None then 1 else 0) \<and>
   length (tutorStep [] item) = (if rx_match True nameRx item \<noteq> None then 1 else 0) \<and>
   (benchmarkStep [] item = [] \<longrightarrow>
      foldl benchmarkStep [] (before @ item # after) = foldl benchmarkStep [] (before @ after)) \<and>
   (tutorStep [] item = [] \<longrightarrow>
      foldl tutorStep [] (before @ item # after) = foldl tutorStep [] (before @ after))"
proof -
  have b: "parseBenchmarks s =
     benchmarkStep [] (beforeFirst ''BENCHMARK_ITEM'' s) @
     concat (map (benchmarkStep []) (tl (split s ''BENCHMARK_ITEM'')))"
    by (subst parseBenchmarks_def, subst split_hd_tl) (simp_all add: foldl_benchmarkStep)
  have t: "parseTutors s =
     tutorStep [] (beforeFirst ''TUTOR_ITEM'' s) @
     concat (map (tutorStep []) (tl (split s ''TUTOR_ITEM'')))"
    by (subst parseTutors_def, subst split_hd_tl) (simp_all add: foldl_tutorStep)
  have db: "benchmarkStep [] item = [] \<longrightarrow>
      foldl benchmarkStep [] (before @ item # after) = foldl benchmarkStep [] (before @ after)"
    by (simp only: foldl_benchmarkStep) simp
  have dt: "tutorStep [] item = [] \<longrightarrow>
      foldl tutorStep [] (before @ item # after) = foldl tutorStep [] (before @ after)"
    by (simp only: foldl_tutorStep) simp
  show ?thesis
    using b t db dt benchmarkStep_length [of item] tutorStep_length [of item]
    by blast
qed

theorem delimited_parsers_scan_every_fragment_witness:
  "beforeFirst ''TUTOR_ITEM'' sampleTutorText = ''Here are the names:\<newline>'' \<and>
   tl (split sampleTutorText ''TUTOR_ITEM'')
     = [''\<newline>Name: **Dr. A**\<newline>Specialization: **AI**\<newline>END_ITEM''] \<and>
   parseTutors sampleTutorText =
     [\<lparr>name = ''s:'', affiliation = ''Unknown'', email = ''Not listed'',
       specialization = ''Related Field''\<rparr>,
      \<lparr>name = ''Dr. A'', affiliation = ''Unknown'', email = ''Not listed'',
       specialization = ''**AI**''\<rparr>]"
proof -
  have a: "beforeFirst ''TUTOR_ITEM'' sampleTutorText = ''Here are the names:\<newline>''"
    by code_simp
  have b: "tl (split sampleTutorText ''TUTOR_ITEM'')
             = [''\<newline>Name: **Dr. A**\<newline>Specialization: **AI**\<newline>END_ITEM'']"
    by code_simp
  have c: "tutorStep [] ''Here are the names:\<newline>'' =
             [\<lparr>name = ''s:'', affiliation = ''Unknown'', email = ''Not listed'',
               specialization = ''Related Field''\<rparr>]"
    by code_simp
  have d: "tutorStep [] ''\<newline>Name: **Dr. A**\<newline>Specialization: **AI**\<newline>END_ITEM'' =
             [\<lparr>name = ''Dr. A'', affiliation = ''Unknown'', email = ''Not listed'',
               specialization = ''**AI**''\<rparr>]"
    by code_simp
  show ?thesis
    using delimited_parsers_scan_every_fragment [of sampleTutorText "[]" "[]" "[]"] a b c d
    by simp
qed

text \<open>
  The claim as stated fails: in \<open>sampleBenchmarkText\<close> the text before the first marker
  yields the only record, and the fragment after the marker, in which the University pattern
  matches, yields none because it has no Comparison line.
\<close>

theorem delimited_parsers_counterexample:
  "split sampleBenchmarkText ''BENCHMARK_ITEM'' =
     [''Top pick:\<newline>University: MIT\<newline>Comparison: broader\<newline>'',
      ''\<newline>University: ETH\<newline>END_ITEM\<newline>''] \<and>
   rx_match True uniRx ''\<newline>University: ETH\<newline>END_ITEM\<newline>''
     = Some (''University: ETH\<newline>'', ''ETH'') \<and>
   performBenchmarking (Inr GoogleGenAI) (Settled 1500 (Inr (textResponse sampleBenchmarkText))) =
     Settled 1500 (Inr [\<lparr>university = ''MIT'', comparison = ''broader'', url = None\<rparr>])"
proof -
  have a: "split sampleBenchmarkText ''BENCHMARK_ITEM'' =
     [''Top pick:\<newline>University: MIT\<newline>Comparison: broader\<newline>'',
      ''\<newline>University: ETH\<newline>END_ITEM\<newline>'']"
    by code_simp
  have b: "rx_match True uniRx ''\<newline>University: ETH\<newline>END_ITEM\<newline>''
             = Some (''University: ETH\<newline>'', ''ETH'')"
    by code_simp
  have c: "benchmarksOf (textResponse sampleBenchmarkText) =
             [\<lparr>university = ''MIT'', comparison = ''broader'', url = None\<rparr>]"
    by code_simp
  show ?thesis
    using a b c by (simp add: performBenchmarking_with_client withTimeout_cases)
qed

lemma removeAll_rx_star: "removeAll_rx starRx s = filter (\<lambda>c. c \<noteq> CHR ''*'') s"
  by (simp add: starRx_def removeAll_rx_single)

lemma benchmarkStep_exact:
  assumes "r \<in> set (benchmarkStep [] item)"
  shows "\<exists>um. rx_match True uniRx item = Some um \<and>
              university r = filter (\<lambda>c. c \<noteq> CHR ''*'') (trim (snd um))"
  using assms
  by (auto simp: benchmarkStep_def Let_def removeAll_rx_star split: option.splits dest: sym)

lemma tutorStep_exact:
  assumes "r \<in> set (tutorStep [] item)"
  shows "\<exists>nm. rx_match True nameRx item = Some nm \<and>
              name r = filter (\<lambda>c. c \<noteq> CHR ''*'') (trim (snd nm)) \<and>
              affiliation r =
                (case rx_match True affRx item of
                   Some am \<Rightarrow> filter (\<lambda>c. c \<noteq> CHR ''*'') (trim (snd am))
                 | None \<Rightarrow> ''Unknown'') \<and>
              email r =
                (case rx_match True emailRx item of
                   Some em \<Rightarrow> filter (\<lambda>c. c \<noteq> CHR ''*'') (trim (snd em))
                 | None \<Rightarrow> ''Not listed'')"
  using assms
  by (auto simp: tutorStep_def Let_def removeAll_rx_star split: option.splits dest: sym)

lemma benchmarksOf_university:
  assumes "r \<in> set (benchmarksOf response)"
  shows "university r = ''No Data'' \<or>
         (\<exists>r' \<in> set (parseBenchmarks (orElse (responseText response) [])).
            university r = university r')"
proof -
  let ?parsed = "parseBenchmarks (orElse (responseText response) [])"
  have "university r \<in> set (map university (benchmarksOf response))"
    using assms by simp
  moreover have "set (map university (attachUrl (groundingChunks response) ?parsed))
                   = set (map university ?parsed)"
    by (simp only: attachUrl_university)
  ultimately
  have "university r \<in> set (map university ?parsed) \<or> university r = university noData"
    by (simp add: benchmarksOf_def Let_def split: if_splits)
  then show ?thesis
    by (auto simp: noData_def)
qed

lemma parseBenchmarks_exact:
  assumes "r \<in> set (parseBenchmarks s)"
  shows "\<exists>item \<in> set (split s ''BENCHMARK_ITEM'').
           \<exists>um. rx_match True uniRx item = Some um \<and>
                university r = filter (\<lambda>c. c \<noteq> CHR ''*'') (trim (snd um))"
proof -
  from assms obtain item where "item \<in> set (split s ''BENCHMARK_ITEM'')"
      and "r \<in> set (benchmarkStep [] item)"
    by (auto simp: parseBenchmarks_def foldl_benchmarkStep)
  then show ?thesis
    using benchmarkStep_exact by blast
qed

lemma parseTutors_exact:
  assumes "r \<in> set (parseTutors s)"
  shows "\<exists>item \<in> set (split s ''TUTOR_ITEM'').
           \<exists>nm. rx_match True nameRx item = Some nm \<and>
                name r = filter (\<lambda>c. c \<noteq> CHR ''*'') (trim (snd nm)) \<and>
                affiliation r =
                  (case rx_match True affRx item of
                     Some am \<Rightarrow> filter (\<lambda>c. c \<noteq> CHR ''*'') (trim (snd am))
                   | None \<Rightarrow> ''Unknown'') \<and>
                email r =
                  (case rx_match True emailRx item of
                     Some em \<Rightarrow> filter (\<lambda>c. c \<noteq> CHR ''*'') (trim (snd em))
                   | None \<Rightarrow> ''Not listed'')"
proof -
  from assms obtain item where "item \<in> set (split s ''TUTOR_ITEM'')"
      and "r \<in> set (tutorStep [] item)"
    by (auto simp: parseTutors_def foldl_tutorStep)
  then show ?thesis
    using tutorStep_exact by blast
qed

text \<open>
  Claim C8, as amended. In every record that \<open>performBenchmarking\<close> returns, the
  \<^verbatim>\<open>university\<close> is that of a sentinel record or is the text that the University
  pattern captured in a fragment of the response, trimmed, with every asterisk removed. In
  every record that \<open>findLocalTutors\<close> returns, \<^verbatim>\<open>name\<close>, \<^verbatim>\<open>affiliation\<close> and
  \<^verbatim>\<open>email\<close> are the texts that their patterns captured in one fragment of the
  response, trimmed, with every asterisk removed (\<^verbatim>\<open>affiliation\<close> and
  \<^verbatim>\<open>email\<close> are their placeholder when the pattern does not match). Hence these four
  fields never contain an asterisk.
\<close>

theorem emphasis_stripped_from_line_fields:
  "(performBenchmarking getClient request = Settled t (Inr rs) \<longrightarrow>
      (\<forall>r \<in> set rs.
         CHR ''*'' \<notin> set (university r) \<and>
         (university r = ''Search Unavailable'' \<or> university r = ''No Data'' \<or>
          (\<exists>response.
             request = Settled t (Inr response) \<and>
             (\<exists>item \<in> set (split (orElse (responseText response) []) ''BENCHMARK_ITEM'').
                \<exists>um. rx_match True uniRx item = Some um \<and>
                     university r = filter (\<lambda>c. c \<noteq> CHR ''*'') (trim (snd um))))))) \<and>
   (findLocalTutors getClient request = Settled t (Inr ts) \<longrightarrow>
      (\<forall>r \<in> set ts.
         CHR ''*'' \<notin> set (name r) \<and> CHR ''*'' \<notin> set (affiliation r) \<and>
         CHR ''*'' \<notin> set (email r) \<and>
         (\<exists>response.
            request = Settled t (Inr response) \<and>
            (\<exists>item \<in> set (split (orElse (responseText response) []) ''TUTOR_ITEM'').
               \<exists>nm. rx_match True nameRx item = Some nm \<and>
                    name r = filter (\<lambda>c. c \<noteq> CHR ''*'') (trim (snd nm)) \<and>
                    affiliation r =
                      (case rx_match True affRx item of
                         Some am \<Rightarrow> filter (\<lambda>c. c \<noteq> CHR ''*'') (trim (snd am))
                       | None \<Rightarrow> ''Unknown'') \<and>
                    email r =
                      (case rx_match True emailRx item of
                         Some em \<Rightarrow> filter (\<lambda>c. c \<noteq> CHR ''*'') (trim (snd em))
                       | None \<Rightarrow> ''Not listed'')))))"
proof (intro conjI impI ballI)
  fix r
  assume run: "performBenchmarking getClient request = Settled t (Inr rs)" and r: "r \<in> set rs"
  from performBenchmarking_value [OF run]
  consider "rs = [searchUnavailable]"
    | response where "request = Settled t (Inr response)" "rs = benchmarksOf response"
    by blast
  then show "CHR ''*'' \<notin> set (university r)"
  proof cases
    case 1
    with r show ?thesis by (simp add: searchUnavailable_def)
  next
    case 2
    with r show ?thesis using benchmarksOf_no_star by blast
  qed
  from performBenchmarking_value [OF run]
  consider "rs = [searchUnavailable]"
    | response where "request = Settled t (Inr response)" "rs = benchmarksOf response"
    by blast
  then show "university r = ''Search Unavailable'' \<or> university r = ''No Data'' \<or>
          (\<exists>response.
             request = Settled t (Inr response) \<and>
             (\<exists>item \<in> set (split (orElse (responseText response) []) ''BENCHMARK_ITEM'').
                \<exists>um. rx_match True uniRx item = Some um \<and>
                     university r = filter (\<lambda>c. c \<noteq> CHR ''*'') (trim (snd um))))"
  proof cases
    case 1
    with r show ?thesis by (simp add: searchUnavailable_def)
  next
    case 2
    from 2 r have "r \<in> set (benchmarksOf response)" by simp
    from benchmarksOf_university [OF this] show ?thesis
    proof
      assume "university r = ''No Data''"
      then show ?thesis by simp
    next
      assume "\<exists>r' \<in> set (parseBenchmarks (orElse (responseText response) [])).
                 university r = university r'"
      then obtain r' where r': "r' \<in> set (parseBenchmarks (orElse (responseText response) []))"
          and eq: "university r = university r'"
        by blast
      from parseBenchmarks_exact [OF r'] eq 2(1) show ?thesis
        by auto
    qed
  qed
next
  fix r
  assume run: "findLocalTutors getClient request = Settled t (Inr ts)" and r: "r \<in> set ts"
  from findLocalTutors_value [OF run] r
  obtain response where req: "request = Settled t (Inr response)"
      and ts: "ts = parseTutors (orElse (responseText response) [])"
    by auto
  from r ts have r': "r \<in> set (parseTutors (orElse (responseText response) []))"
    by simp
  from parseTutors_no_star [OF r']
  show "CHR ''*'' \<notin> set (name r)" "CHR ''*'' \<notin> set (affiliation r)" "CHR ''*'' \<notin> set (email r)"
    by simp_all
  from parseTutors_exact [OF r'] req
  show "\<exists>response.
            request = Settled t (Inr response) \<and>
            (\<exists>item \<in> set (split (orElse (responseText response) []) ''TUTOR_ITEM'').
               \<exists>nm. rx_match True nameRx item = Some nm \<and>
                    name r = filter (\<lambda>c. c \<noteq> CHR ''*'') (trim (snd nm)) \<and>
                    affiliation r =
                      (case rx_match True affRx item of
                         Some am \<Rightarrow> filter (\<lambda>c. c \<noteq> CHR ''*'') (trim (snd am))
                       | None \<Rightarrow> ''Unknown'') \<and>
                    email r =
                      (case rx_match True emailRx item of
                         Some em \<Rightarrow> filter (\<lambda>c. c \<noteq> CHR ''*'') (trim (snd em))
                       | None \<Rightarrow> ''Not listed''))"
    by blast
qed

theorem emphasis_stripped_from_line_fields_witness:
  "performBenchmarking (Inr GoogleGenAI) (Settled 1500 (Inr (textResponse sampleStarText))) =
     Settled 1500 (Inr [\<lparr>university = ''MIT'', comparison = ''**Covers** more'', url = None\<rparr>]) \<and>
   rx_match True uniRx ''\<newline>**University:** **MIT**\<newline>**Comparison:** **Covers** more\<newline>END_ITEM''
     = Some (''University:** **MIT**\<newline>'', ''**MIT**'') \<and>
   filter (\<lambda>c. c \<noteq> CHR ''*'') (trim ''**MIT**'') = ''MIT'' \<and>
   CHR ''*'' \<notin> set ''MIT''"
proof -
  have c: "benchmarksOf (textResponse sampleStarText) =
             [\<lparr>university = ''MIT'', comparison = ''**Covers** more'', url = None\<rparr>]"
    by code_simp
  have run: "performBenchmarking (Inr GoogleGenAI)
                 (Settled 1500 (Inr (textResponse sampleStarText))) =
     Settled 1500 (Inr [\<lparr>university = ''MIT'', comparison = ''**Covers** more'', url = None\<rparr>])"
    using c by (simp add: performBenchmarking_with_client withTimeout_cases)
  have m: "rx_match True uniRx
             ''\<newline>**University:** **MIT**\<newline>**Comparison:** **Covers** more\<newline>END_ITEM''
             = Some (''University:** **MIT**\<newline>'', ''**MIT**'')"
    by code_simp
  have f: "filter (\<lambda>c. c \<noteq> CHR ''*'') (trim ''**MIT**'') = ''MIT''"
    by code_simp
  have g: "CHR ''*'' \<notin> set ''MIT''"
    by simp
  from emphasis_stripped_from_line_fields
         [where getClient = "Inr GoogleGenAI"
            and request = "Settled 1500 (Inr (textResponse sampleStarText))"
            and t = 1500
            and rs = "[\<lparr>university = ''MIT'', comparison = ''**Covers** more'', url = None\<rparr>]"]
       run m f g
  show ?thesis
    by blast
qed

text \<open>
  The claim as stated fails: the asterisks of the comparison text of \<open>sampleStarText\<close> and
  of the specialization text of \<open>sampleTutorText\<close> are still there in the records.
\<close>

theorem emphasis_kept_counterexample:
  "performBenchmarking (Inr GoogleGenAI) (Settled 1500 (Inr (textResponse sampleStarText))) =
     Settled 1500 (Inr [\<lparr>university = ''MIT'', comparison = ''**Covers** more'', url = None\<rparr>]) \<and>
   findLocalTutors (Inr GoogleGenAI) (Settled 1500 (Inr (textResponse sampleTutorText))) =
     Settled 1500
       (Inr [\<lparr>name = ''s:'', affiliation = ''Unknown'', email = ''Not listed'',
              specialization = ''Related Field''\<rparr>,
             \<lparr>name = ''Dr. A'', affiliation = ''Unknown'', email = ''Not listed'',
              specialization = ''**AI**''\<rparr>])"
proof -
  have c: "benchmarksOf (textResponse sampleStarText) =
             [\<lparr>university = ''MIT'', comparison = ''**Covers** more'', url = None\<rparr>]"
    by code_simp
  have d: "parseTutors (orElse (responseText (textResponse sampleTutorText)) []) =
             [\<lparr>name = ''s:'', affiliation = ''Unknown'', email = ''Not listed'',
               specialization = ''Related Field''\<rparr>,
              \<lparr>name = ''Dr. A'', affiliation = ''Unknown'', email = ''Not listed'',
               specialization = ''**AI**''\<rparr>]"
    by code_simp
  show ?thesis
    using c d
    by (simp add: performBenchmarking_with_client findLocalTutors_with_client withTimeout_cases)
qed

end
